theory Spec2Isabelle
  imports Complex_Main "HOL-Library.Char_ord" "HOL-Library.List_Lexorder" "HOL-Library.Sublist"
begin

section \<open>The patient store (src/store/patientSlice.ts)\<close>

text \<open>
  A JavaScript number, as far as the store handles one: a finite value (a rational
  number), \<^verbatim>\<open>NaN\<close>, or one of the two infinities.
\<close>

datatype jsNumber = Num rat | NaN | PosInfinity | NegInfinity

text \<open>The comparisons \<^verbatim>\<open>x < 0\<close> and \<^verbatim>\<open>x >= n\<close>; every comparison with \<^verbatim>\<open>NaN\<close> is false.\<close>

fun lessThanZero :: "jsNumber \<Rightarrow> bool" where
  "lessThanZero (Num q) = (q < 0)"
| "lessThanZero NaN = False"
| "lessThanZero PosInfinity = False"
| "lessThanZero NegInfinity = True"

fun atLeastLength :: "jsNumber \<Rightarrow> nat \<Rightarrow> bool" where
  "atLeastLength (Num q) n = (q \<ge> of_nat n)"
| "atLeastLength NaN n = False"
| "atLeastLength PosInfinity n = True"
| "atLeastLength NegInfinity n = False"

text \<open>The array index a number stands for as a property key: a whole number that is not
  negative. Any other number is the key of an ordinary property.\<close>

fun arrayIndex :: "jsNumber \<Rightarrow> nat option" where
  "arrayIndex (Num q) = (if 0 \<le> q \<and> of_int \<lfloor>q\<rfloor> = q then Some (nat \<lfloor>q\<rfloor>) else None)"
| "arrayIndex x = None"

text \<open>
  The store holds a JavaScript array of patient strings, the number \<open>current\<close> and a
  copy of the current string. An array read outside its bounds, or under a key that is
  not an index, gives \<^verbatim>\<open>undefined\<close>, and a write past its end extends the array, leaving
  holes; an element is therefore a \<open>string option\<close>, with \<open>None\<close> for \<^verbatim>\<open>undefined\<close>. The
  states of the model are the stores whose array has elements only (no other
  properties), which is what every reducer below produces whenever it produces a state.
\<close>

record IPatientCollection =
  current :: jsNumber
  patients :: "string option list"
  currentPatient :: "string option"

definition initialState :: IPatientCollection where
  "initialState = \<lparr>current = Num 0, patients = [], currentPatient = Some ''''\<rparr>"

text \<open>\<^verbatim>\<open>xs[i]\<close> for an index \<open>i\<close>, as JavaScript reads it.\<close>

definition jsGet :: "string option list \<Rightarrow> nat \<Rightarrow> string option" where
  "jsGet xs i = (if i < length xs then xs ! i else None)"

text \<open>\<^verbatim>\<open>xs[x]\<close> for a number \<open>x\<close>: an array without other properties has nothing under a key
  that is not an index.\<close>

definition jsGetNumber :: "string option list \<Rightarrow> jsNumber \<Rightarrow> string option" where
  "jsGetNumber xs x = (case arrayIndex x of None \<Rightarrow> None | Some i \<Rightarrow> jsGet xs i)"

text \<open>\<^verbatim>\<open>xs[i] = v\<close> for an index \<open>i\<close>: past the end the array grows, with holes.\<close>

definition jsSet :: "string option list \<Rightarrow> nat \<Rightarrow> string option \<Rightarrow> string option list" where
  "jsSet xs i v =
     (if i < length xs then xs[i := v]
      else xs @ replicate (i - length xs) None @ [v])"

text \<open>\<^verbatim>\<open>x + payload\<close> on a possibly undefined left operand.\<close>

definition jsConcat :: "string option \<Rightarrow> string \<Rightarrow> string" where
  "jsConcat x p = (case x of None \<Rightarrow> ''undefined'' @ p | Some s \<Rightarrow> s @ p)"

definition addPatient :: "IPatientCollection \<Rightarrow> string \<Rightarrow> IPatientCollection" where
  "addPatient state payload =
     (let ps = patients state @ [Some payload]
      in \<lparr>current = Num (of_nat (length ps) - 1), patients = ps, currentPatient = Some payload\<rparr>)"

definition clearPatients :: "IPatientCollection \<Rightarrow> IPatientCollection" where
  "clearPatients state = initialState"

text \<open>The payload is a JavaScript number: the guard lets through every number that is
  neither below zero nor at least the length, whole or not, and \<^verbatim>\<open>NaN\<close>.\<close>

definition setCurrentPatient :: "IPatientCollection \<Rightarrow> jsNumber \<Rightarrow> IPatientCollection" where
  "setCurrentPatient state payload =
     (if lessThanZero payload \<or> atLeastLength payload (length (patients state)) then state
      else state\<lparr>current := payload,
                 currentPatient := jsGetNumber (patients state) payload\<rparr>)"

text \<open>
  \<^verbatim>\<open>state.patients[state.current] += payload\<close>. When \<open>current\<close> is an index the array is
  updated or extended. When it is not, the assignment gives the array draft a property
  that is not an element; what becomes of it is decided by the Immer library, which is
  not part of these sources, and the result is not a state of the model: \<open>None\<close>.
\<close>

definition addToCurrentPatient :: "IPatientCollection \<Rightarrow> string \<Rightarrow> IPatientCollection option" where
  "addToCurrentPatient state payload =
     (case arrayIndex (current state) of
        None \<Rightarrow> None
      | Some i \<Rightarrow>
          (let ps = jsSet (patients state) i (Some (jsConcat (jsGet (patients state) i) payload))
           in Some (state\<lparr>patients := ps, currentPatient := jsGet ps i\<rparr>)))"

datatype patientAction =
    AddPatient string
  | ClearPatients
  | SetCurrentPatient jsNumber
  | AddToCurrentPatient string

fun reducer :: "IPatientCollection \<Rightarrow> patientAction \<Rightarrow> IPatientCollection option" where
  "reducer s (AddPatient p) = Some (addPatient s p)"
| "reducer s ClearPatients = Some (clearPatients s)"
| "reducer s (SetCurrentPatient x) = Some (setCurrentPatient s x)"
| "reducer s (AddToCurrentPatient p) = addToCurrentPatient s p"

text \<open>The state after dispatching a sequence of actions, oldest first.\<close>

fun dispatchAll :: "IPatientCollection \<Rightarrow> patientAction list \<Rightarrow> IPatientCollection option" where
  "dispatchAll s [] = Some s"
| "dispatchAll s (a # as) =
     (case reducer s a of None \<Rightarrow> None | Some s' \<Rightarrow> dispatchAll s' as)"

fun isAddToCurrentPatient :: "patientAction \<Rightarrow> bool" where
  "isAddToCurrentPatient (AddToCurrentPatient p) = True"
| "isAddToCurrentPatient a = False"

text \<open>An action whose payload, if it is an index payload, is a whole number.\<close>

fun wholePayload :: "patientAction \<Rightarrow> bool" where
  "wholePayload (SetCurrentPatient (Num q)) = (of_int \<lfloor>q\<rfloor> = q)"
| "wholePayload (SetCurrentPatient x) = False"
| "wholePayload a = True"

text \<open>The invariant of the store: an empty store is the initial one, a non-empty store
  points at one of its patients and caches it.\<close>

definition storeInv :: "IPatientCollection \<Rightarrow> bool" where
  "storeInv s \<longleftrightarrow>
     (if patients s = [] then current s = Num 0 \<and> currentPatient s = Some ''''
      else \<exists>i < length (patients s).
             current s = Num (of_nat i) \<and> currentPatient s = patients s ! i)"

lemma arrayIndex_of_nat: "arrayIndex (Num (of_nat i)) = Some i"
  by simp

lemma whole_nonneg_of_nat:
  fixes q :: rat
  assumes "of_int \<lfloor>q\<rfloor> = q" and "0 \<le> q"
  shows "q = of_nat (nat \<lfloor>q\<rfloor>)"
proof -
  from assms(2) have "0 \<le> \<lfloor>q\<rfloor>" by simp
  then have "of_nat (nat \<lfloor>q\<rfloor>) = (of_int \<lfloor>q\<rfloor> :: rat)" by simp
  also have "\<dots> = q" by (rule assms(1))
  finally show ?thesis by (rule sym)
qed

lemma storeInv_initial: "storeInv initialState"
  by (simp add: storeInv_def initialState_def)

lemma storeInv_addPatient: "storeInv (addPatient s p)"
  by (simp add: storeInv_def addPatient_def Let_def)

lemma storeInv_setCurrentPatient:
  assumes "storeInv s" and "of_int \<lfloor>q\<rfloor> = q"
  shows "storeInv (setCurrentPatient s (Num q))"
proof (cases "q < 0 \<or> q \<ge> of_nat (length (patients s))")
  case True
  with assms(1) show ?thesis by (simp add: setCurrentPatient_def)
next
  case False
  then have nonneg: "0 \<le> q" and lt: "q < of_nat (length (patients s))" by auto
  from whole_nonneg_of_nat [OF assms(2) nonneg] obtain i where q: "q = of_nat i" by blast
  with lt have i: "i < length (patients s)" by simp
  then show ?thesis
    using False
    by (auto simp: storeInv_def setCurrentPatient_def jsGetNumber_def jsGet_def q)
qed

lemma storeInv_addToCurrentPatient:
  "storeInv s \<Longrightarrow> \<exists>s'. addToCurrentPatient s p = Some s' \<and> storeInv s'"
  by (auto simp: storeInv_def addToCurrentPatient_def jsGet_def jsSet_def Let_def
           split: if_splits)

lemma storeInv_reducer:
  "storeInv s \<Longrightarrow> wholePayload a \<Longrightarrow> \<exists>s'. reducer s a = Some s' \<and> storeInv s'"
proof (cases a)
  case (SetCurrentPatient x)
  assume "storeInv s" and "wholePayload a"
  with SetCurrentPatient show ?thesis
    by (cases x) (simp_all add: storeInv_setCurrentPatient)
qed (simp_all add: storeInv_addPatient storeInv_addToCurrentPatient clearPatients_def
       storeInv_initial)

lemma storeInv_dispatchAll:
  "storeInv s \<Longrightarrow> \<forall>a \<in> set as. wholePayload a \<Longrightarrow>
     \<exists>s'. dispatchAll s as = Some s' \<and> storeInv s'"
proof (induction as arbitrary: s)
  case Nil
  then show ?case by simp
next
  case (Cons a as)
  then obtain s1 where s1: "reducer s a = Some s1" "storeInv s1"
    using storeInv_reducer [of s a] by auto
  with Cons.IH [of s1] Cons.prems(2) show ?case by simp
qed

text \<open>
  Claim C8, as amended. In every state reached from the initial state by a sequence of
  the four actions in which every \<open>setCurrentPatient\<close> payload is a whole number (such a
  sequence always reaches a state), a non-empty patients list has \<open>current\<close> as a valid
  index and \<open>currentPatient\<close> equal to the patient at that index; when no action of the
  sequence is \<open>addToCurrentPatient\<close> and the list is empty, \<open>current\<close> is 0 and
  \<open>currentPatient\<close> is the empty string.
\<close>

theorem patient_store_invariant:
  assumes "\<forall>a \<in> set as. wholePayload a"
  shows "\<exists>s. dispatchAll initialState as = Some s \<and>
           (patients s \<noteq> [] \<longrightarrow>
              (\<exists>i < length (patients s).
                 current s = Num (of_nat i) \<and> currentPatient s = patients s ! i)) \<and>
           ((\<forall>a \<in> set as. \<not> isAddToCurrentPatient a) \<longrightarrow>
              patients s = [] \<longrightarrow> current s = Num 0 \<and> currentPatient s = Some '''')"
proof -
  from storeInv_dispatchAll [OF storeInv_initial assms]
  obtain s where "dispatchAll initialState as = Some s" and "storeInv s" by blast
  then show ?thesis
    by (auto simp: storeInv_def split: if_splits)
qed

theorem patient_store_invariant_witness:
  "wholePayload (AddPatient ''a'') \<and> wholePayload (AddPatient ''b'') \<and>
   wholePayload (SetCurrentPatient (Num 0)) \<and> wholePayload (AddToCurrentPatient ''x'') \<and>
   dispatchAll initialState
      [AddPatient ''a'', AddPatient ''b'', SetCurrentPatient (Num 0), AddToCurrentPatient ''x'']
     = Some \<lparr>current = Num 0, patients = [Some ''ax'', Some ''b''], currentPatient = Some ''ax''\<rparr> \<and>
   wholePayload ClearPatients \<and> wholePayload (SetCurrentPatient (Num 3)) \<and>
   \<not> isAddToCurrentPatient (AddPatient ''a'') \<and>
   \<not> isAddToCurrentPatient ClearPatients \<and>
   \<not> isAddToCurrentPatient (SetCurrentPatient (Num 3)) \<and>
   dispatchAll initialState [AddPatient ''a'', ClearPatients, SetCurrentPatient (Num 3)]
     = Some \<lparr>current = Num 0, patients = [], currentPatient = Some ''''\<rparr>"
  using patient_store_invariant
    [of "[AddPatient ''a'', AddPatient ''b'', SetCurrentPatient (Num 0), AddToCurrentPatient ''x'']"]
    patient_store_invariant [of "[AddPatient ''a'', ClearPatients, SetCurrentPatient (Num 3)]"]
  by (simp add: initialState_def addPatient_def clearPatients_def setCurrentPatient_def
        addToCurrentPatient_def jsGet_def jsGetNumber_def jsSet_def jsConcat_def Let_def)

text \<open>
  Claim C8 as stated fails for a payload that is not a whole number: with two patients
  in the store, \<open>setCurrentPatient(0.5)\<close> passes the guard, so \<open>current\<close> becomes 0.5,
  which is not an index of the list, and \<open>currentPatient\<close> becomes \<^verbatim>\<open>undefined\<close>.
\<close>

theorem setCurrentPatient_fraction_counterexample:
  "dispatchAll initialState
      [AddPatient ''a'', AddPatient ''b'', SetCurrentPatient (Num (1 / 2))]
     = Some \<lparr>current = Num (1 / 2), patients = [Some ''a'', Some ''b''], currentPatient = None\<rparr> \<and>
   arrayIndex (Num (1 / 2)) = None"
proof -
  have "\<lfloor>1 / 2 :: rat\<rfloor> = 0" by (simp add: floor_eq_iff)
  then show ?thesis
    by (simp add: initialState_def addPatient_def setCurrentPatient_def jsGetNumber_def Let_def)
qed

text \<open>
  Claim C9. For an index payload that is negative or at least the length of the patients
  list, \<open>setCurrentPatient\<close> returns the state unchanged; for an index in range it sets
  \<open>current\<close> to the index and \<open>currentPatient\<close> to the patient at that index and leaves
  the patients list as it was.
\<close>

theorem setCurrentPatient_atomic:
  "((i < 0 \<or> i \<ge> int (length (patients s))) \<longrightarrow> setCurrentPatient s (Num (of_int i)) = s) \<and>
   (0 \<le> i \<and> i < int (length (patients s)) \<longrightarrow>
      current (setCurrentPatient s (Num (of_int i))) = Num (of_int i) \<and>
      currentPatient (setCurrentPatient s (Num (of_int i))) = patients s ! nat i \<and>
      patients (setCurrentPatient s (Num (of_int i))) = patients s)"
proof -
  have ge: "(rat_of_nat n \<le> rat_of_int i) = (int n \<le> i)" for n
    by (metis of_int_le_iff of_int_of_nat_eq)
  show ?thesis
    by (auto simp: setCurrentPatient_def jsGetNumber_def jsGet_def ge)
qed

theorem setCurrentPatient_atomic_witness:
  "setCurrentPatient \<lparr>current = Num 0, patients = [Some ''a'', Some ''b''], currentPatient = Some ''a''\<rparr> (Num 2)
     = \<lparr>current = Num 0, patients = [Some ''a'', Some ''b''], currentPatient = Some ''a''\<rparr> \<and>
   setCurrentPatient \<lparr>current = Num 0, patients = [Some ''a'', Some ''b''], currentPatient = Some ''a''\<rparr> (Num (- 1))
     = \<lparr>current = Num 0, patients = [Some ''a'', Some ''b''], currentPatient = Some ''a''\<rparr> \<and>
   setCurrentPatient \<lparr>current = Num 0, patients = [Some ''a'', Some ''b''], currentPatient = Some ''a''\<rparr> (Num 1)
     = \<lparr>current = Num 1, patients = [Some ''a'', Some ''b''], currentPatient = Some ''b''\<rparr>"
  using setCurrentPatient_atomic
    [of 2 "\<lparr>current = Num 0, patients = [Some ''a'', Some ''b''], currentPatient = Some ''a''\<rparr>"]
    setCurrentPatient_atomic
    [of "- 1" "\<lparr>current = Num 0, patients = [Some ''a'', Some ''b''], currentPatient = Some ''a''\<rparr>"]
    setCurrentPatient_atomic
    [of 1 "\<lparr>current = Num 0, patients = [Some ''a'', Some ''b''], currentPatient = Some ''a''\<rparr>"]
  by (simp add: setCurrentPatient_def jsGetNumber_def jsGet_def)

section \<open>The SOAP-notes viewer (PatientSOAP, multi-round version)\<close>

subsection \<open>Entries, roles and the role selection\<close>

text \<open>A SOAP entry: every field is optional (\<open>None\<close> when the field is missing).\<close>

record SOAPEntry =
  subjective :: "string option"
  objective :: "string option"
  assessment :: "string option"
  plan :: "string option"
  role :: "string option"

text \<open>JavaScript truthiness of an optional string: present and not empty. The code
  tests \<^verbatim>\<open>e.role\<close> and \<^verbatim>\<open>!content\<close> this way.\<close>

definition truthyStr :: "string option \<Rightarrow> bool" where
  "truthyStr s \<longleftrightarrow> (case s of None \<Rightarrow> False | Some t \<Rightarrow> t \<noteq> '''')"

text \<open>\<^verbatim>\<open>allRoles\<close>: the distinct truthy roles of the current entries, sorted.\<close>

definition allRoles :: "SOAPEntry list \<Rightarrow> string list" where
  "allRoles currentEntries =
     sort (remdups (map (\<lambda>e. the (role e)) (filter (\<lambda>e. truthyStr (role e)) currentEntries)))"

text \<open>\<^verbatim>\<open>toggleRole\<close>, as the state update it passes to \<^verbatim>\<open>setSelectedRoles\<close>: \<open>roles\<close> is
  the \<^verbatim>\<open>allRoles\<close> array of the render, \<open>prev\<close> the previous selection.\<close>

definition toggleRole :: "string list \<Rightarrow> string set \<Rightarrow> string \<Rightarrow> string set" where
  "toggleRole roles prev r =
     (let next = (if r \<in> prev then prev - {r} else insert r prev)
      in if next = {} then set roles else next)"

datatype soapSection = Subjective | Objective | Assessment | Plan

text \<open>\<^verbatim>\<open>e[sectionKey]\<close> for the four section keys.\<close>

fun field :: "SOAPEntry \<Rightarrow> soapSection \<Rightarrow> string option" where
  "field e Subjective = subjective e"
| "field e Objective = objective e"
| "field e Assessment = assessment e"
| "field e Plan = plan e"

text \<open>What a section shows: the notice, or one block per entry that has content, each
  with an optional role heading.\<close>

record block =
  heading :: "string option"
  body :: string

datatype rendered = NoDataAvailable | Blocks "block list"

text \<open>The predicate of \<^verbatim>\<open>entries.filter\<close>.\<close>

definition passesRoleFilter :: "string set \<Rightarrow> SOAPEntry \<Rightarrow> bool" where
  "passesRoleFilter selectedRoles e =
     (if truthyStr (role e) then the (role e) \<in> selectedRoles else True)"

text \<open>The block of one entry in \<^verbatim>\<open>entries.map\<close>; an entry without content renders \<^verbatim>\<open>null\<close>.\<close>

definition renderEntry :: "string list \<Rightarrow> soapSection \<Rightarrow> SOAPEntry \<Rightarrow> block option" where
  "renderEntry roles sectionKey e =
     (if \<not> truthyStr (field e sectionKey) then None
      else Some \<lparr>heading = (if truthyStr (role e) \<and> length roles > 0 then role e else None),
                 body = the (field e sectionKey)\<rparr>)"

definition renderSectionContent ::
    "SOAPEntry list \<Rightarrow> string set \<Rightarrow> soapSection \<Rightarrow> rendered" where
  "renderSectionContent currentEntries selectedRoles sectionKey =
     (let roles = allRoles currentEntries;
          entries = (if length roles > 0 \<and> selectedRoles \<noteq> {}
                     then filter (passesRoleFilter selectedRoles) currentEntries
                     else currentEntries)
      in if length entries = 0 then NoDataAvailable
         else Blocks (List.map_filter (renderEntry roles sectionKey) entries))"

lemma allRoles_nonempty_iff:
  "allRoles es \<noteq> [] \<longleftrightarrow> (\<exists>e \<in> set es. truthyStr (role e))"
proof -
  have "allRoles es = [] \<longleftrightarrow> set (allRoles es) = {}" by simp
  also have "\<dots> \<longleftrightarrow> \<not> (\<exists>e \<in> set es. truthyStr (role e))"
    by (auto simp: allRoles_def)
  finally show ?thesis by blast
qed

lemma map_filter_renderEntry:
  "List.map_filter (renderEntry roles k) es =
     map (\<lambda>e. \<lparr>heading = (if truthyStr (role e) \<and> length roles > 0 then role e else None),
                body = the (field e k)\<rparr>)
       (filter (\<lambda>e. truthyStr (field e k)) es)"
  by (induction es) (simp_all add: List.map_filter_simps renderEntry_def)

text \<open>
  Claim C10. With a non-empty list of available roles, toggling a role never leaves the
  selection empty: an absent role is added; a present role is removed when other roles
  stay selected; and when removing it would empty the selection, the selection becomes
  the set of all available roles.
\<close>

theorem toggleRole_never_empty:
  "roles \<noteq> [] \<Longrightarrow>
     toggleRole roles prev r \<noteq> {} \<and>
     (r \<notin> prev \<longrightarrow> toggleRole roles prev r = insert r prev) \<and>
     (r \<in> prev \<and> prev - {r} \<noteq> {} \<longrightarrow> toggleRole roles prev r = prev - {r}) \<and>
     (r \<in> prev \<and> prev - {r} = {} \<longrightarrow> toggleRole roles prev r = set roles)"
  by (simp add: toggleRole_def Let_def)

theorem toggleRole_never_empty_witness:
  "[''nurse'', ''physician''] \<noteq> [] \<and>
   toggleRole [''nurse'', ''physician''] {''nurse''} ''nurse'' = {''nurse'', ''physician''} \<and>
   toggleRole [''nurse'', ''physician''] {''nurse''} ''physician'' = {''nurse'', ''physician''} \<and>
   toggleRole [''nurse'', ''physician''] {''nurse'', ''physician''} ''nurse'' = {''physician''}"
  using toggleRole_never_empty [of "[''nurse'', ''physician'']" "{''nurse''}" "''nurse''"]
    toggleRole_never_empty [of "[''nurse'', ''physician'']" "{''nurse''}" "''physician''"]
    toggleRole_never_empty [of "[''nurse'', ''physician'']" "{''nurse'', ''physician''}" "''nurse''"]
  by (auto simp: toggleRole_def Let_def)

text \<open>
  Claim C7. When the entries of the round carry at least one role and the selection is
  not empty, a section renders exactly the entries, in their original order, whose role
  is absent (missing or empty, the test \<^verbatim>\<open>e.role\<close> of the code) or selected and whose
  content for the section is not empty; when no entry passes the role filter the
  section shows the notice "No data available".
\<close>

theorem renderSectionContent_filtered:
  assumes "\<exists>e \<in> set es. truthyStr (role e)" and "sel \<noteq> {}"
  shows "(filter (\<lambda>e. \<not> truthyStr (role e) \<or> the (role e) \<in> sel) es = [] \<longrightarrow>
            renderSectionContent es sel k = NoDataAvailable) \<and>
         (filter (\<lambda>e. \<not> truthyStr (role e) \<or> the (role e) \<in> sel) es \<noteq> [] \<longrightarrow>
            renderSectionContent es sel k =
              Blocks (map (\<lambda>e. \<lparr>heading = (if truthyStr (role e) then role e else None),
                                  body = the (field e k)\<rparr>)
                (filter (\<lambda>e. (\<not> truthyStr (role e) \<or> the (role e) \<in> sel) \<and>
                             truthyStr (field e k)) es)))"
proof -
  have roles: "allRoles es \<noteq> []"
    using assms(1) by (simp add: allRoles_nonempty_iff)
  have pass: "passesRoleFilter sel = (\<lambda>e. \<not> truthyStr (role e) \<or> the (role e) \<in> sel)"
    by (auto simp: passesRoleFilter_def fun_eq_iff)
  have fl: "filter (\<lambda>e. truthyStr (field e k)) (filter (\<lambda>e. \<not> truthyStr (role e) \<or> the (role e) \<in> sel) es)
      = filter (\<lambda>e. (\<not> truthyStr (role e) \<or> the (role e) \<in> sel) \<and> truthyStr (field e k)) es"
    by (simp add: conj_commute)
  show ?thesis
    using roles assms(2)
    by (simp add: renderSectionContent_def Let_def pass map_filter_renderEntry fl)
qed

theorem renderSectionContent_filtered_witness:
  "truthyStr (role \<lparr>subjective = Some ''s1'', objective = None, assessment = None,
                     plan = Some ''p1'', role = Some ''nurse''\<rparr>) \<and>
   {''nurse''} \<noteq> ({} :: string set) \<and>
   renderSectionContent
     [\<lparr>subjective = Some ''s1'', objective = None, assessment = None,
        plan = Some ''p1'', role = Some ''nurse''\<rparr>,
      \<lparr>subjective = None, objective = None, assessment = None,
        plan = Some ''p2'', role = Some ''physician''\<rparr>,
      \<lparr>subjective = None, objective = Some ''o3'', assessment = None,
        plan = Some '''', role = Some ''nurse''\<rparr>,
      \<lparr>subjective = None, objective = None, assessment = None,
        plan = Some ''p4'', role = None\<rparr>]
     {''nurse''} Plan
     = Blocks [\<lparr>heading = Some ''nurse'', body = ''p1''\<rparr>, \<lparr>heading = None, body = ''p4''\<rparr>] \<and>
   renderSectionContent
     [\<lparr>subjective = Some ''s1'', objective = None, assessment = None,
        plan = Some ''p1'', role = Some ''nurse''\<rparr>]
     {''physician''} Plan
     = NoDataAvailable"
  using renderSectionContent_filtered
    [of "[\<lparr>subjective = Some ''s1'', objective = None, assessment = None,
            plan = Some ''p1'', role = Some ''nurse''\<rparr>,
          \<lparr>subjective = None, objective = None, assessment = None,
            plan = Some ''p2'', role = Some ''physician''\<rparr>,
          \<lparr>subjective = None, objective = Some ''o3'', assessment = None,
            plan = Some '''', role = Some ''nurse''\<rparr>,
          \<lparr>subjective = None, objective = None, assessment = None,
            plan = Some ''p4'', role = None\<rparr>]" "{''nurse''}" Plan]
    renderSectionContent_filtered
    [of "[\<lparr>subjective = Some ''s1'', objective = None, assessment = None,
            plan = Some ''p1'', role = Some ''nurse''\<rparr>]" "{''physician''}" Plan]
  by (simp add: truthyStr_def)

section \<open>Normalising the rounds input (PatientSOAP, \<^verbatim>\<open>normalizedRounds\<close>)\<close>

text \<open>
  The rounds arrive as parsed JSON, so the values under the keys of the input object are
  loosely typed. A JavaScript value is modelled by \<open>jsval\<close>; an object is the list of its
  own enumerable properties in enumeration order (keys are distinct in a real object);
  its prototype is \<^verbatim>\<open>Object.prototype\<close>, as for every object that \<^verbatim>\<open>JSON.parse\<close> builds.
  A number is the rational value of the JavaScript number (\<^verbatim>\<open>JSON\<close> has no \<^verbatim>\<open>NaN\<close> and no
  infinity).
\<close>

datatype jsval =
    JUndefined
  | JNull
  | JBool bool
  | JNum rat
  | JStr string
  | JArr "jsval list"
  | JObj "(string \<times> jsval) list"

text \<open>The prop \<^verbatim>\<open>rounds\<close>: by its type an object; the code also guards against a missing
  one.\<close>

datatype roundsInput =
    RoundsUndefined
  | RoundsNull
  | RoundsObject "(string \<times> jsval) list"

text \<open>JavaScript truthiness, as tested by \<^verbatim>\<open>!v\<close>.\<close>

fun truthy :: "jsval \<Rightarrow> bool" where
  "truthy JUndefined = False"
| "truthy JNull = False"
| "truthy (JBool b) = b"
| "truthy (JNum n) = (n \<noteq> 0)"
| "truthy (JStr s) = (s \<noteq> '''')"
| "truthy (JArr xs) = True"
| "truthy (JObj ps) = True"

text \<open>\<^verbatim>\<open>obj[k]\<close>: a property that is not there reads as \<^verbatim>\<open>undefined\<close>.\<close>

definition getProp :: "(string \<times> jsval) list \<Rightarrow> string \<Rightarrow> jsval" where
  "getProp props k = (case map_of props k of None \<Rightarrow> JUndefined | Some v \<Rightarrow> v)"

text \<open>The regular expression \<^verbatim>\<open>/^\d+$/\<close>: one or more decimal digits and nothing else.\<close>

definition isDigit :: "char \<Rightarrow> bool" where
  "isDigit c \<longleftrightarrow> c \<in> set ''0123456789''"

definition allDigits :: "string \<Rightarrow> bool" where
  "allDigits k \<longleftrightarrow> k \<noteq> [] \<and> list_all isDigit k"

definition soapKeys :: "string list" where
  "soapKeys = [''subjective'', ''objective'', ''assessment'', ''plan'']"

definition isSingle :: "(string \<times> jsval) list \<Rightarrow> bool" where
  "isSingle props \<longleftrightarrow>
     list_ex (\<lambda>k. getProp props k \<noteq> JUndefined) soapKeys \<and>
     \<not> list_ex allDigits (map fst props)"

text \<open>
  The result is a plain object used as a map. Its own properties are the entries of the
  display model (what \<^verbatim>\<open>Object.keys\<close> lists); its prototype is \<^verbatim>\<open>Object.prototype\<close>
  (\<open>None\<close> below) unless an assignment replaces it.
\<close>

record roundsRecord =
  ownEntries :: "string \<rightharpoonup> jsval list"
  prototype :: "jsval list option"

definition emptyRecord :: roundsRecord where
  "emptyRecord = \<lparr>ownEntries = Map.empty, prototype = None\<rparr>"

text \<open>
  The assignment \<^verbatim>\<open>result[k] = xs\<close> on a plain object. Under the key \<^verbatim>\<open>__proto__\<close> it runs
  the setter inherited from \<^verbatim>\<open>Object.prototype\<close>: the array becomes the prototype of the
  result and no property is created. Under every other key it creates or overwrites an
  own property.
\<close>

definition assign :: "roundsRecord \<Rightarrow> string \<Rightarrow> jsval list \<Rightarrow> roundsRecord" where
  "assign result k xs =
     (if k = ''__proto__'' then result\<lparr>prototype := Some xs\<rparr>
      else result\<lparr>ownEntries := (ownEntries result)(k \<mapsto> xs)\<rparr>)"

text \<open>The body of the \<^verbatim>\<open>forEach\<close> over \<^verbatim>\<open>Object.entries(rounds)\<close>.\<close>

fun addRound :: "roundsRecord \<Rightarrow> string \<times> jsval \<Rightarrow> roundsRecord" where
  "addRound result (k, v) =
     (if \<not> truthy v then result
      else case v of JArr xs \<Rightarrow> assign result k xs | _ \<Rightarrow> assign result k [v])"

fun normalizedRounds :: "roundsInput \<Rightarrow> roundsRecord" where
  "normalizedRounds RoundsUndefined = emptyRecord"
| "normalizedRounds RoundsNull = emptyRecord"
| "normalizedRounds (RoundsObject props) =
     (if isSingle props then \<lparr>ownEntries = [''1'' \<mapsto> [JObj props]], prototype = None\<rparr>
      else foldl addRound emptyRecord props)"

lemma ownEntries_addRound_other: "k \<noteq> fst p \<Longrightarrow> ownEntries (addRound m p) k = ownEntries m k"
  by (cases p) (auto simp: assign_def split: jsval.splits)

lemma foldl_addRound_other:
  "k \<notin> fst ` set props \<Longrightarrow> ownEntries (foldl addRound m props) k = ownEntries m k"
  by (induction props arbitrary: m) (simp_all add: ownEntries_addRound_other)

lemma ownEntries_addRound_proto:
  "ownEntries (addRound m p) ''__proto__'' = ownEntries m ''__proto__''"
  by (cases p) (auto simp: assign_def split: jsval.splits)

lemma foldl_addRound_proto:
  "ownEntries (foldl addRound m props) ''__proto__'' = ownEntries m ''__proto__''"
  by (induction props arbitrary: m) (simp_all add: ownEntries_addRound_proto)

lemma foldl_addRound_lookup:
  "distinct (map fst props) \<Longrightarrow> (k, v) \<in> set props \<Longrightarrow> k \<noteq> ''__proto__'' \<Longrightarrow>
     ownEntries (foldl addRound m props) k =
       (if \<not> truthy v then ownEntries m k
        else case v of JArr xs \<Rightarrow> Some xs | _ \<Rightarrow> Some [v])"
proof (induction props arbitrary: m)
  case Nil
  then show ?case by simp
next
  case (Cons p props)
  obtain k' v' where p: "p = (k', v')" by (cases p)
  show ?case
  proof (cases "(k, v) = p")
    case True
    with Cons.prems(1) have "k \<notin> fst ` set props" by force
    then have "ownEntries (foldl addRound (addRound m p) props) k = ownEntries (addRound m p) k"
      by (rule foldl_addRound_other)
    with True Cons.prems(3) show ?thesis
      by (auto simp: assign_def split: jsval.splits)
  next
    case False
    with Cons.prems have in_rest: "(k, v) \<in> set props" and d: "distinct (map fst props)"
      by auto
    from Cons.prems(1) in_rest p have "k \<noteq> fst p" by force
    then have "ownEntries (addRound m p) k = ownEntries m k"
      by (rule ownEntries_addRound_other)
    with Cons.IH [OF d in_rest Cons.prems(3), of "addRound m p"] show ?thesis by simp
  qed
qed

text \<open>
  Claim C1, as amended. A null or undefined input gives the empty map. An input object
  with at least one of the fields subjective, objective, assessment, plan (read as not
  \<^verbatim>\<open>undefined\<close>, the test of the code) and no all-digit key becomes the map
  \<open>{"1": [input]}\<close>. Otherwise the result has an entry only for keys of the input; under
  each key other than \<^verbatim>\<open>__proto__\<close> an array value is kept as it is and an object value is
  wrapped in a one-element list, and a null or undefined value leaves the key out.
\<close>

theorem normalizedRounds_display_model:
  assumes "distinct (map fst props)"
  shows "normalizedRounds RoundsNull = emptyRecord \<and>
         normalizedRounds RoundsUndefined = emptyRecord \<and>
         ((\<exists>k \<in> set [''subjective'', ''objective'', ''assessment'', ''plan''].
              getProp props k \<noteq> JUndefined) \<and>
          (\<forall>k \<in> set (map fst props). \<not> allDigits k) \<longrightarrow>
            normalizedRounds (RoundsObject props)
              = \<lparr>ownEntries = [''1'' \<mapsto> [JObj props]], prototype = None\<rparr>) \<and>
         (\<not> ((\<exists>k \<in> set [''subjective'', ''objective'', ''assessment'', ''plan''].
                 getProp props k \<noteq> JUndefined) \<and>
              (\<forall>k \<in> set (map fst props). \<not> allDigits k)) \<longrightarrow>
            (\<forall>k. k \<notin> set (map fst props) \<longrightarrow>
               ownEntries (normalizedRounds (RoundsObject props)) k = None) \<and>
            (\<forall>k xs. k \<noteq> ''__proto__'' \<and> (k, JArr xs) \<in> set props \<longrightarrow>
               ownEntries (normalizedRounds (RoundsObject props)) k = Some xs) \<and>
            (\<forall>k ps. k \<noteq> ''__proto__'' \<and> (k, JObj ps) \<in> set props \<longrightarrow>
               ownEntries (normalizedRounds (RoundsObject props)) k = Some [JObj ps]) \<and>
            (\<forall>k. (k, JNull) \<in> set props \<or> (k, JUndefined) \<in> set props \<longrightarrow>
               ownEntries (normalizedRounds (RoundsObject props)) k = None))"
proof -
  let ?r = "foldl addRound emptyRecord props"
  have single: "isSingle props \<longleftrightarrow>
      (\<exists>k \<in> set [''subjective'', ''objective'', ''assessment'', ''plan''].
          getProp props k \<noteq> JUndefined) \<and>
      (\<forall>k \<in> set (map fst props). \<not> allDigits k)"
    unfolding isSingle_def soapKeys_def list_ex_iff by blast
  have other: "ownEntries ?r k = None" if "k \<notin> set (map fst props)" for k
    using foldl_addRound_other [of k props emptyRecord] that by (simp add: emptyRecord_def)
  have arr: "ownEntries ?r k = Some xs"
    if "k \<noteq> ''__proto__'' \<and> (k, JArr xs) \<in> set props" for k xs
    using foldl_addRound_lookup [OF assms, of k "JArr xs" emptyRecord] that by simp
  have obj: "ownEntries ?r k = Some [JObj ps]"
    if "k \<noteq> ''__proto__'' \<and> (k, JObj ps) \<in> set props" for k ps
    using foldl_addRound_lookup [OF assms, of k "JObj ps" emptyRecord] that by simp
  have nul: "ownEntries ?r k = None"
    if "(k, JNull) \<in> set props \<or> (k, JUndefined) \<in> set props" for k
  proof (cases "k = ''__proto__''")
    case True
    then show ?thesis by (simp add: foldl_addRound_proto emptyRecord_def)
  next
    case False
    with that foldl_addRound_lookup [OF assms, of k JNull emptyRecord]
      foldl_addRound_lookup [OF assms, of k JUndefined emptyRecord]
    show ?thesis by (auto simp: emptyRecord_def)
  qed
  show ?thesis
    unfolding single [symmetric]
    using other arr obj nul by simp
qed

theorem normalizedRounds_display_model_witness:
  "distinct (map fst [(''subjective'', JStr ''s''), (''plan'', JStr ''p'')]) \<and>
   normalizedRounds (RoundsObject [(''subjective'', JStr ''s''), (''plan'', JStr ''p'')])
     = \<lparr>ownEntries = [''1'' \<mapsto> [JObj [(''subjective'', JStr ''s''), (''plan'', JStr ''p'')]]],
        prototype = None\<rparr> \<and>
   distinct (map fst [(''1'', JArr [JObj [(''plan'', JStr ''p'')]]),
                      (''2'', JObj [(''role'', JStr ''nurse'')]),
                      (''3'', JNull)]) \<and>
   ownEntries (normalizedRounds (RoundsObject [(''1'', JArr [JObj [(''plan'', JStr ''p'')]]),
                                   (''2'', JObj [(''role'', JStr ''nurse'')]),
                                   (''3'', JNull)])) ''1''
     = Some [JObj [(''plan'', JStr ''p'')]] \<and>
   ownEntries (normalizedRounds (RoundsObject [(''1'', JArr [JObj [(''plan'', JStr ''p'')]]),
                                   (''2'', JObj [(''role'', JStr ''nurse'')]),
                                   (''3'', JNull)])) ''2''
     = Some [JObj [(''role'', JStr ''nurse'')]] \<and>
   ownEntries (normalizedRounds (RoundsObject [(''1'', JArr [JObj [(''plan'', JStr ''p'')]]),
                                   (''2'', JObj [(''role'', JStr ''nurse'')]),
                                   (''3'', JNull)])) ''3''
     = None \<and>
   ownEntries (normalizedRounds (RoundsObject [(''1'', JArr [JObj [(''plan'', JStr ''p'')]]),
                                   (''2'', JObj [(''role'', JStr ''nurse'')]),
                                   (''3'', JNull)])) ''4''
     = None"
  using normalizedRounds_display_model
      [of "[(''subjective'', JStr ''s''), (''plan'', JStr ''p'')]"]
    normalizedRounds_display_model
      [of "[(''1'', JArr [JObj [(''plan'', JStr ''p'')]]),
            (''2'', JObj [(''role'', JStr ''nurse'')]),
            (''3'', JNull)]"]
  by (simp add: getProp_def allDigits_def isDigit_def)

text \<open>
  Claim C1 as stated fails for the key \<^verbatim>\<open>__proto__\<close>, which \<^verbatim>\<open>JSON.parse\<close> creates as an
  ordinary own property of the input: the array under it is not kept under that key.
  The assignment makes it the prototype of the result, which has no entry at all.
\<close>

theorem normalizedRounds_proto_counterexample:
  "(''__proto__'', JArr [JObj [(''plan'', JStr ''p'')]])
     \<in> set [(''__proto__'', JArr [JObj [(''plan'', JStr ''p'')]])] \<and>
   normalizedRounds (RoundsObject [(''__proto__'', JArr [JObj [(''plan'', JStr ''p'')]])])
     = \<lparr>ownEntries = Map.empty, prototype = Some [JObj [(''plan'', JStr ''p'')]]\<rparr>"
  by (simp add: isSingle_def soapKeys_def getProp_def assign_def emptyRecord_def)

section \<open>Token acquisition (\<^verbatim>\<open>getAuthToken\<close>)\<close>

text \<open>
  A thrown JavaScript error, with its message. A call that may throw (or a promise that
  may reject) returns \<open>jsError + 'a\<close>, \<open>Inl\<close> for the error.
\<close>

datatype jsError = Error string

fun errorMessage :: "jsError \<Rightarrow> string" where
  "errorMessage (Error m) = m"

text \<open>
  The MSAL instance on \<^verbatim>\<open>window\<close>, as the environment the code talks to: the accounts it
  reports and the outcome of each of its three asynchronous calls (for the token calls,
  the \<^verbatim>\<open>accessToken\<close> of the response).
\<close>

record msal =
  getAllAccounts :: "string list"
  acquireTokenSilent :: "jsError + string"
  acquireTokenPopup :: "jsError + string"
  loginPopup :: "jsError + unit"

text \<open>The \<^verbatim>\<open>try\<close> block of \<^verbatim>\<open>getAuthToken\<close>: \<open>Inl\<close> when it throws.\<close>

definition getAuthTokenTry :: "msal option \<Rightarrow> jsError + string option" where
  "getAuthTokenTry msalInstance =
     (case msalInstance of
        None \<Rightarrow> Inr None
      | Some m \<Rightarrow>
          if length (getAllAccounts m) = 0 then Inr None
          else (case acquireTokenSilent m of
                  Inl e \<Rightarrow> Inl e
                | Inr accessToken \<Rightarrow> Inr (Some accessToken)))"

text \<open>The \<^verbatim>\<open>catch\<close> block: the popup attempt in its own \<^verbatim>\<open>try\<close>, then \<^verbatim>\<open>return null\<close>.\<close>

definition getAuthTokenCatch :: "msal option \<Rightarrow> jsError + string option" where
  "getAuthTokenCatch msalInstance =
     (case msalInstance of
        None \<Rightarrow> Inr None
      | Some m \<Rightarrow>
          (case acquireTokenPopup m of
             Inl popupError \<Rightarrow> Inr None
           | Inr accessToken \<Rightarrow> Inr (Some accessToken)))"

definition getAuthToken :: "msal option \<Rightarrow> jsError + string option" where
  "getAuthToken msalInstance =
     (case getAuthTokenTry msalInstance of
        Inr r \<Rightarrow> Inr r
      | Inl error \<Rightarrow> getAuthTokenCatch msalInstance)"

text \<open>
  Claim C5. \<open>getAuthToken\<close> returns null when there is no MSAL instance or no account.
  With an account it returns the token of the silent acquisition; when that throws, the
  token of the popup acquisition; it returns null exactly when both throw. It never
  throws.
\<close>

theorem getAuthToken_wrapper:
  "getAuthToken None = Inr None \<and>
   (getAllAccounts m = [] \<longrightarrow> getAuthToken (Some m) = Inr None) \<and>
   (getAllAccounts m \<noteq> [] \<longrightarrow>
      (\<forall>tok. acquireTokenSilent m = Inr tok \<longrightarrow> getAuthToken (Some m) = Inr (Some tok)) \<and>
      (\<forall>e tok. acquireTokenSilent m = Inl e \<and> acquireTokenPopup m = Inr tok \<longrightarrow>
         getAuthToken (Some m) = Inr (Some tok)) \<and>
      (getAuthToken (Some m) = Inr None \<longleftrightarrow>
         (\<exists>e. acquireTokenSilent m = Inl e) \<and> (\<exists>e. acquireTokenPopup m = Inl e))) \<and>
   (\<exists>r. getAuthToken w = Inr r)"
  by (auto simp: getAuthToken_def getAuthTokenTry_def getAuthTokenCatch_def
        split: option.splits sum.splits)

theorem getAuthToken_wrapper_witness:
  "getAllAccounts \<lparr>getAllAccounts = [''alice''], acquireTokenSilent = Inl (Error ''interaction_required''),
      acquireTokenPopup = Inr ''tok2'', loginPopup = Inr ()\<rparr> \<noteq> [] \<and>
   getAuthToken (Some \<lparr>getAllAccounts = [''alice''], acquireTokenSilent = Inl (Error ''interaction_required''),
      acquireTokenPopup = Inr ''tok2'', loginPopup = Inr ()\<rparr>) = Inr (Some ''tok2'') \<and>
   getAuthToken (Some \<lparr>getAllAccounts = [''alice''], acquireTokenSilent = Inr ''tok1'',
      acquireTokenPopup = Inr ''tok2'', loginPopup = Inr ()\<rparr>) = Inr (Some ''tok1'') \<and>
   getAuthToken (Some \<lparr>getAllAccounts = [''alice''], acquireTokenSilent = Inl (Error ''interaction_required''),
      acquireTokenPopup = Inl (Error ''user_cancelled''), loginPopup = Inr ()\<rparr>) = Inr None \<and>
   getAuthToken (Some \<lparr>getAllAccounts = [], acquireTokenSilent = Inr ''tok1'',
      acquireTokenPopup = Inr ''tok2'', loginPopup = Inr ()\<rparr>) = Inr None"
  using getAuthToken_wrapper
      [of "\<lparr>getAllAccounts = [''alice''], acquireTokenSilent = Inl (Error ''interaction_required''),
             acquireTokenPopup = Inr ''tok2'', loginPopup = Inr ()\<rparr>" None]
    getAuthToken_wrapper
      [of "\<lparr>getAllAccounts = [''alice''], acquireTokenSilent = Inr ''tok1'',
             acquireTokenPopup = Inr ''tok2'', loginPopup = Inr ()\<rparr>" None]
    getAuthToken_wrapper
      [of "\<lparr>getAllAccounts = [''alice''], acquireTokenSilent = Inl (Error ''interaction_required''),
             acquireTokenPopup = Inl (Error ''user_cancelled''), loginPopup = Inr ()\<rparr>" None]
    getAuthToken_wrapper
      [of "\<lparr>getAllAccounts = [], acquireTokenSilent = Inr ''tok1'',
             acquireTokenPopup = Inr ''tok2'', loginPopup = Inr ()\<rparr>" None]
  by simp

section \<open>Environment validation (src/auth/authConfig.ts)\<close>

text \<open>The three values read from \<^verbatim>\<open>import.meta.env\<close>; \<open>None\<close> for a variable that is not
  set.\<close>

record requiredEnv =
  clientId :: "string option"
  authority :: "string option"
  redirectUri :: "string option"

text \<open>\<^verbatim>\<open>String.prototype.trim\<close> on ASCII text: tab, line feed, vertical tab, form feed,
  carriage return and space are white space.\<close>

definition isWhitespace :: "char \<Rightarrow> bool" where
  "isWhitespace c \<longleftrightarrow> c \<in> set [CHR 0x09, CHR 0x0A, CHR 0x0B, CHR 0x0C, CHR 0x0D, CHR 0x20]"

definition trim :: "string \<Rightarrow> string" where
  "trim s = rev (dropWhile isWhitespace (rev (dropWhile isWhitespace s)))"

text \<open>\<^verbatim>\<open>String.prototype.toUpperCase\<close> on ASCII text.\<close>

definition toUpperChar :: "char \<Rightarrow> char" where
  "toUpperChar c =
     (case map_of (zip ''abcdefghijklmnopqrstuvwxyz'' ''ABCDEFGHIJKLMNOPQRSTUVWXYZ'') c of
        None \<Rightarrow> c
      | Some u \<Rightarrow> u)"

definition toUpperCase :: "string \<Rightarrow> string" where
  "toUpperCase s = map toUpperChar s"

text \<open>\<^verbatim>\<open>Array.prototype.join\<close>.\<close>

fun join :: "string \<Rightarrow> string list \<Rightarrow> string" where
  "join sep [] = ''''"
| "join sep [x] = x"
| "join sep (x # y # ys) = x @ sep @ join sep (y # ys)"

text \<open>The filter predicate \<^verbatim>\<open>!value || value.trim() === ''\<close>.\<close>

definition isMissing :: "string option \<Rightarrow> bool" where
  "isMissing v \<longleftrightarrow> (case v of None \<Rightarrow> True | Some s \<Rightarrow> s = '''' \<or> trim s = '''')"

text \<open>\<^verbatim>\<open>validateRequiredEnvVars\<close>: \<open>Inl\<close> carries the message of the thrown \<^verbatim>\<open>Error\<close>.\<close>

definition validateRequiredEnvVars :: "requiredEnv \<Rightarrow> string + requiredEnv" where
  "validateRequiredEnvVars required =
     (let missing =
            map (\<lambda>(key, v). ''VITE_AZURE_'' @ toUpperCase key)
              (filter (\<lambda>(key, v). isMissing v)
                 [(''clientId'', clientId required),
                  (''authority'', authority required),
                  (''redirectUri'', redirectUri required)])
      in if length missing > 0
         then Inl (''Missing required Azure AD configuration: '' @ join '', '' missing @
                   ''. Please check your .env file.'')
         else (let uri = the (redirectUri required)
               in if \<not> prefix ''http://'' uri \<and> \<not> prefix ''https://'' uri
                  then Inl (''Invalid redirect URI format: '' @ uri @
                            ''. Must start with http:// or https://'')
                  else Inr required))"

lemma validateRequiredEnvVars_throws_iff_missing:
  "(\<exists>names. validateRequiredEnvVars env =
       Inl (''Missing required Azure AD configuration: '' @ names @
            ''. Please check your .env file.'')) \<longleftrightarrow>
     isMissing (clientId env) \<or> isMissing (authority env) \<or> isMissing (redirectUri env)"
  by (auto simp: validateRequiredEnvVars_def Let_def)

lemma validateRequiredEnvVars_bad_uri:
  "\<not> isMissing (clientId env) \<Longrightarrow> \<not> isMissing (authority env) \<Longrightarrow>
   \<not> isMissing (redirectUri env) \<Longrightarrow>
   \<not> prefix ''http://'' (the (redirectUri env)) \<Longrightarrow>
   \<not> prefix ''https://'' (the (redirectUri env)) \<Longrightarrow>
     validateRequiredEnvVars env =
       Inl (''Invalid redirect URI format: '' @ the (redirectUri env) @
            ''. Must start with http:// or https://'')"
  by (simp add: validateRequiredEnvVars_def Let_def)

lemma validateRequiredEnvVars_ok:
  "\<not> isMissing (clientId env) \<Longrightarrow> \<not> isMissing (authority env) \<Longrightarrow>
   \<not> isMissing (redirectUri env) \<Longrightarrow>
   prefix ''http://'' (the (redirectUri env)) \<or> prefix ''https://'' (the (redirectUri env)) \<Longrightarrow>
     validateRequiredEnvVars env = Inr env"
  by (auto simp: validateRequiredEnvVars_def Let_def)

text \<open>
  Claim C4. The validation throws exactly when a value is missing or blank, throws on a
  redirect URI without an http or https scheme, and otherwise returns the values (the
  three lemmas above). The message of the first error, however, does not list the
  missing variables by their names: the label is built from the key of the local object
  (\<^verbatim>\<open>clientId\<close>, \<^verbatim>\<open>redirectUri\<close>) in upper case, so a missing
  \<^verbatim>\<open>VITE_AZURE_CLIENT_ID\<close> is reported as \<^verbatim>\<open>VITE_AZURE_CLIENTID\<close>, a variable the
  program never reads.
\<close>

theorem validateRequiredEnvVars_mislabels_client_id:
  "validateRequiredEnvVars
     \<lparr>clientId = None,
      authority = Some ''https://login.microsoftonline.com/common'',
      redirectUri = Some ''http://localhost:5173''\<rparr>
     = Inl ''Missing required Azure AD configuration: VITE_AZURE_CLIENTID. Please check your .env file.'' \<and>
   \<not> sublist ''VITE_AZURE_CLIENT_ID''
       ''Missing required Azure AD configuration: VITE_AZURE_CLIENTID. Please check your .env file.''"
proof -
  have "\<not> sublist ''VITE_AZURE_CLIENT_ID''
       ''Missing required Azure AD configuration: VITE_AZURE_CLIENTID. Please check your .env file.''"
    by code_simp
  then show ?thesis
    by (simp add: validateRequiredEnvVars_def Let_def isMissing_def trim_def isWhitespace_def
          toUpperCase_def toUpperChar_def)
qed

section \<open>Scroll-spy tab synchronisation (PatientSOAP, \<^verbatim>\<open>handleScroll\<close>)\<close>

text \<open>
  The handler reads the scroll position of the container and the bounding rectangles of
  the four section elements. Pixel measurements are taken as exact rational numbers
  (the browser holds them as floating-point numbers; rounding is not modelled). The one
  non-finite value the arithmetic of the handler can produce from finite measurements is
  the \<^verbatim>\<open>NaN\<close> of \<^verbatim>\<open>0 / 0\<close> for an element of height zero, which is \<open>None\<close> below: every
  comparison with it is false. Both versions of the component (single-round and
  multi-round) carry the same handler.
\<close>

record container =
  scrollTop :: rat
  clientHeight :: rat
  scrollHeight :: rat
  containerTop :: rat

record rect =
  rectTop :: rat
  rectHeight :: rat

definition tabs :: "soapSection list" where
  "tabs = [Subjective, Objective, Assessment, Plan]"

definition visibilityRatio :: "container \<Rightarrow> rect \<Rightarrow> rat option" where
  "visibilityRatio c r =
     (let containerHeight = clientHeight c;
          elementTop = rectTop r - containerTop c;
          visibleTop = max 0 (- elementTop);
          visibleBottom = min (rectHeight r) (containerHeight - elementTop);
          visibleHeight = max 0 (visibleBottom - visibleTop)
      in if rectHeight r = 0 then None else Some (visibleHeight / rectHeight r))"

fun scanTab :: "container \<Rightarrow> (soapSection \<Rightarrow> rect option) \<Rightarrow> soapSection \<times> rat \<Rightarrow> soapSection
    \<Rightarrow> soapSection \<times> rat" where
  "scanTab c sectionRefs (mostVisibleSection, maxVisibility) tab =
     (case sectionRefs tab of
        None \<Rightarrow> (mostVisibleSection, maxVisibility)
      | Some r \<Rightarrow>
          (case visibilityRatio c r of
             None \<Rightarrow> (mostVisibleSection, maxVisibility)
           | Some ratio \<Rightarrow>
               if ratio > maxVisibility then (tab, ratio)
               else (mostVisibleSection, maxVisibility)))"

definition handleScroll ::
    "soapSection \<Rightarrow> container option \<Rightarrow> (soapSection \<Rightarrow> rect option) \<Rightarrow> soapSection" where
  "handleScroll activeTab containerRef sectionRefs =
     (case containerRef of
        None \<Rightarrow> activeTab
      | Some c \<Rightarrow>
          if scrollTop c + clientHeight c \<ge> scrollHeight c - 10 then Plan
          else (let mostVisibleSection = fst (foldl (scanTab c sectionRefs) (Subjective, 0) tabs)
                in if mostVisibleSection \<noteq> activeTab then mostVisibleSection else activeTab))"

definition visibleFraction :: "container \<Rightarrow> (soapSection \<Rightarrow> rect option) \<Rightarrow> soapSection \<Rightarrow> rat" where
  "visibleFraction c sectionRefs tab =
     (case sectionRefs tab of
        None \<Rightarrow> 0
      | Some r \<Rightarrow> (case visibilityRatio c r of None \<Rightarrow> 0 | Some ratio \<Rightarrow> ratio))"

fun tabIndex :: "soapSection \<Rightarrow> nat" where
  "tabIndex Subjective = 0"
| "tabIndex Objective = 1"
| "tabIndex Assessment = 2"
| "tabIndex Plan = 3"

lemma visibilityRatio_nonneg:
  "rectHeight r \<ge> 0 \<Longrightarrow> visibilityRatio c r = Some q \<Longrightarrow> q \<ge> 0"
  by (auto simp: visibilityRatio_def Let_def split: if_splits)

lemma visibleFraction_nonneg:
  "(\<And>t r. sectionRefs t = Some r \<Longrightarrow> rectHeight r \<ge> 0) \<Longrightarrow> visibleFraction c sectionRefs tab \<ge> 0"
  by (auto simp: visibleFraction_def split: option.splits dest: visibilityRatio_nonneg)

lemma scanTab_visibleFraction:
  "q \<ge> 0 \<Longrightarrow> visibleFraction c sectionRefs tab \<ge> 0 \<Longrightarrow>
   scanTab c sectionRefs (m, q) tab =
     (if visibleFraction c sectionRefs tab > q then (tab, visibleFraction c sectionRefs tab) else (m, q))"
  by (auto simp: visibleFraction_def split: option.splits)

lemma all_soapSection: "(\<forall>t. P t) \<longleftrightarrow> P Subjective \<and> P Objective \<and> P Assessment \<and> P Plan"
  by (metis soapSection.exhaust)

lemma scan_four_tabs:
  fixes f :: "soapSection \<Rightarrow> rat"
  assumes "\<And>t. f t \<ge> 0"
    and step: "\<And>m q t. q \<ge> 0 \<Longrightarrow> g (m, q) t = (if f t > q then (t, f t) else (m, q))"
  shows "(\<forall>t. f t \<le> f (fst (foldl g (Subjective, 0) tabs))) \<and>
         (\<forall>t. f t = f (fst (foldl g (Subjective, 0) tabs)) \<longrightarrow>
               tabIndex (fst (foldl g (Subjective, 0) tabs)) \<le> tabIndex t)"
proof -
  have a: "f Subjective \<ge> 0" "f Objective \<ge> 0" "f Assessment \<ge> 0" "f Plan \<ge> 0"
    using assms(1) by auto
  show ?thesis
    unfolding all_soapSection tabs_def
    using a by (simp add: step) 
qed

text \<open>
  Claim C6. On a scroll event of the container: within 10 pixels of the bottom the
  active tab becomes \<open>Plan\<close>. Otherwise it becomes the section with the greatest visible
  fraction of its height (the first such section in tab order; a section without an
  element or of height zero counts as fraction 0, and element heights are not negative),
  which is \<open>Subjective\<close> when no section has an element.
\<close>

theorem handleScroll_scroll_spy:
  "(scrollHeight c - (scrollTop c + clientHeight c) \<le> 10 \<longrightarrow>
      handleScroll activeTab (Some c) sectionRefs = Plan) \<and>
   (scrollHeight c - (scrollTop c + clientHeight c) > 10 \<and>
    (\<forall>t r. sectionRefs t = Some r \<longrightarrow> rectHeight r \<ge> 0) \<longrightarrow>
      (\<forall>t. visibleFraction c sectionRefs t
            \<le> visibleFraction c sectionRefs (handleScroll activeTab (Some c) sectionRefs)) \<and>
      (\<forall>t. visibleFraction c sectionRefs t
              = visibleFraction c sectionRefs (handleScroll activeTab (Some c) sectionRefs) \<longrightarrow>
            tabIndex (handleScroll activeTab (Some c) sectionRefs) \<le> tabIndex t)) \<and>
   (scrollHeight c - (scrollTop c + clientHeight c) > 10 \<and> (\<forall>t. sectionRefs t = None) \<longrightarrow>
      handleScroll activeTab (Some c) sectionRefs = Subjective)"
proof (intro conjI impI)
  assume "scrollHeight c - (scrollTop c + clientHeight c) \<le> 10"
  then show "handleScroll activeTab (Some c) sectionRefs = Plan"
    by (simp add: handleScroll_def)
next
  assume h: "scrollHeight c - (scrollTop c + clientHeight c) > 10 \<and>
    (\<forall>t r. sectionRefs t = Some r \<longrightarrow> rectHeight r \<ge> 0)"
  then have res: "handleScroll activeTab (Some c) sectionRefs
      = fst (foldl (scanTab c sectionRefs) (Subjective, 0) tabs)"
    by (simp add: handleScroll_def Let_def)
  have nonneg: "visibleFraction c sectionRefs t \<ge> 0" for t
    using h by (intro visibleFraction_nonneg) blast
  have step: "scanTab c sectionRefs (m, q) t =
      (if visibleFraction c sectionRefs t > q then (t, visibleFraction c sectionRefs t) else (m, q))"
    if "q \<ge> 0" for m q t
    using that nonneg by (rule scanTab_visibleFraction)
  from scan_four_tabs [of "visibleFraction c sectionRefs" "scanTab c sectionRefs", OF nonneg step]
  show "\<forall>t. visibleFraction c sectionRefs t
            \<le> visibleFraction c sectionRefs (handleScroll activeTab (Some c) sectionRefs)"
    and "\<forall>t. visibleFraction c sectionRefs t
              = visibleFraction c sectionRefs (handleScroll activeTab (Some c) sectionRefs) \<longrightarrow>
            tabIndex (handleScroll activeTab (Some c) sectionRefs) \<le> tabIndex t"
    unfolding res by blast+
next
  assume "scrollHeight c - (scrollTop c + clientHeight c) > 10 \<and> (\<forall>t. sectionRefs t = None)"
  then show "handleScroll activeTab (Some c) sectionRefs = Subjective"
    by (simp add: handleScroll_def Let_def tabs_def)
qed

theorem handleScroll_scroll_spy_witness:
  "handleScroll Subjective
     (Some \<lparr>scrollTop = 300, clientHeight = 384, scrollHeight = 1000, containerTop = 100\<rparr>)
     (\<lambda>t. case t of
        Subjective \<Rightarrow> Some \<lparr>rectTop = - 200, rectHeight = 250\<rparr>
      | Objective \<Rightarrow> Some \<lparr>rectTop = 50, rectHeight = 250\<rparr>
      | Assessment \<Rightarrow> Some \<lparr>rectTop = 300, rectHeight = 250\<rparr>
      | Plan \<Rightarrow> Some \<lparr>rectTop = 550, rectHeight = 250\<rparr>)
     = Objective \<and>
   handleScroll Subjective
     (Some \<lparr>scrollTop = 610, clientHeight = 384, scrollHeight = 1000, containerTop = 100\<rparr>)
     (\<lambda>t. case t of
        Subjective \<Rightarrow> Some \<lparr>rectTop = - 510, rectHeight = 250\<rparr>
      | Objective \<Rightarrow> Some \<lparr>rectTop = - 260, rectHeight = 250\<rparr>
      | Assessment \<Rightarrow> Some \<lparr>rectTop = - 10, rectHeight = 250\<rparr>
      | Plan \<Rightarrow> Some \<lparr>rectTop = 240, rectHeight = 250\<rparr>)
     = Plan \<and>
   handleScroll Assessment
     (Some \<lparr>scrollTop = 300, clientHeight = 384, scrollHeight = 1000, containerTop = 100\<rparr>)
     (\<lambda>t. None)
     = Subjective"
  using handleScroll_scroll_spy
      [of "\<lparr>scrollTop = 300, clientHeight = 384, scrollHeight = 1000, containerTop = 100\<rparr>"
          Subjective
          "\<lambda>t. case t of
             Subjective \<Rightarrow> Some \<lparr>rectTop = - 200, rectHeight = 250\<rparr>
           | Objective \<Rightarrow> Some \<lparr>rectTop = 50, rectHeight = 250\<rparr>
           | Assessment \<Rightarrow> Some \<lparr>rectTop = 300, rectHeight = 250\<rparr>
           | Plan \<Rightarrow> Some \<lparr>rectTop = 550, rectHeight = 250\<rparr>"]
    handleScroll_scroll_spy
      [of "\<lparr>scrollTop = 610, clientHeight = 384, scrollHeight = 1000, containerTop = 100\<rparr>"
          Subjective
          "\<lambda>t. case t of
             Subjective \<Rightarrow> Some \<lparr>rectTop = - 510, rectHeight = 250\<rparr>
           | Objective \<Rightarrow> Some \<lparr>rectTop = - 260, rectHeight = 250\<rparr>
           | Assessment \<Rightarrow> Some \<lparr>rectTop = - 10, rectHeight = 250\<rparr>
           | Plan \<Rightarrow> Some \<lparr>rectTop = 240, rectHeight = 250\<rparr>"]
    handleScroll_scroll_spy
      [of "\<lparr>scrollTop = 300, clientHeight = 384, scrollHeight = 1000, containerTop = 100\<rparr>"
          Assessment "\<lambda>t. None"]
  by (simp add: handleScroll_def Let_def tabs_def visibilityRatio_def)

section \<open>The writer endpoint consumer (\<^verbatim>\<open>startWritingTask\<close>, \<^verbatim>\<open>callApi\<close>)\<close>

text \<open>
  What the consumer does is a sequence of calls to the outside: requests, the login
  popup, and the three callbacks it was given. The model returns that sequence.

  A message is whatever value \<^verbatim>\<open>JSON.parse\<close> returns for a line: the cast to \<^verbatim>\<open>IMessage\<close>
  checks nothing. Two operations of the language are parameters of the model:
  \<open>parse\<close> is \<^verbatim>\<open>JSON.parse\<close>, \<open>None\<close> where it throws; \<open>coerce\<close> is the comparison \<^verbatim>\<open>x > 0\<close>
  for a string, an array or an object \<open>x\<close>, which the language first converts to a
  number, \<open>None\<close> where that conversion throws. A chunk is the text \<^verbatim>\<open>TextDecoder\<close> gives
  for it (ASCII); the body stream yields its chunks and then ends. The three callbacks
  are taken to return normally.
\<close>

text \<open>The calls to the outside: a request (with the bearer token of its Authorization
  header, \<open>None\<close> without one), the login popup, and the three callbacks.\<close>

datatype event =
    Fetch "string option"
  | LoginPopup
  | AddMessage jsval
  | CreateArticle string
  | AddToArticle jsval

text \<open>The response of \<^verbatim>\<open>fetch\<close>: its status, the chunks its body stream yields (\<open>None\<close>
  when there is no body) and the outcome of \<^verbatim>\<open>response.json()\<close>.\<close>

record response =
  status :: nat
  statusText :: string
  body :: "string list option"
  json :: "jsError + jsval"

definition ok :: "response \<Rightarrow> bool" where
  "ok r \<longleftrightarrow> 200 \<le> status r \<and> status r \<le> 299"

text \<open>The environment of one run of \<^verbatim>\<open>callApi\<close>: the outcome of its \<^verbatim>\<open>fetch\<close> and the MSAL
  instance found on \<^verbatim>\<open>window\<close> when the response is a 401.\<close>

record attempt =
  fetchResult :: "jsError + response"
  msalInstance :: "msal option"

text \<open>\<^verbatim>\<open>text.split("\n")\<close>. The result is never empty, so the first case of the \<open>case\<close> is
  never taken.\<close>

fun splitLines :: "string \<Rightarrow> string list" where
  "splitLines [] = [[]]"
| "splitLines (c # cs) =
     (if c = CHR 0x0A then [] # splitLines cs
      else (case splitLines cs of
              [] \<Rightarrow> [[c]]
            | l # ls \<Rightarrow> (c # l) # ls))"

text \<open>
  \<^verbatim>\<open>v.k\<close> for a value \<open>v\<close> that is neither \<^verbatim>\<open>null\<close> nor \<^verbatim>\<open>undefined\<close> and one of the keys the
  handler reads (\<^verbatim>\<open>type\<close>, \<^verbatim>\<open>data\<close>, \<^verbatim>\<open>start\<close>, \<^verbatim>\<open>text\<close>, \<^verbatim>\<open>length\<close>): an own property of an
  object, the length of an array or a string, and \<^verbatim>\<open>undefined\<close> otherwise (no prototype
  has a property of one of the other four names).
\<close>

fun member :: "jsval \<Rightarrow> string \<Rightarrow> jsval" where
  "member (JObj ps) k = getProp ps k"
| "member (JArr xs) k = (if k = ''length'' then JNum (of_nat (length xs)) else JUndefined)"
| "member (JStr s) k = (if k = ''length'' then JNum (of_nat (length s)) else JUndefined)"
| "member v k = JUndefined"

text \<open>The comparison \<^verbatim>\<open>x > 0\<close>, \<open>None\<close> when it throws: \<^verbatim>\<open>undefined\<close> converts to \<^verbatim>\<open>NaN\<close>,
  \<^verbatim>\<open>null\<close> to 0, \<^verbatim>\<open>true\<close> to 1.\<close>

fun greaterThanZero :: "(jsval \<Rightarrow> bool option) \<Rightarrow> jsval \<Rightarrow> bool option" where
  "greaterThanZero coerce JUndefined = Some False"
| "greaterThanZero coerce JNull = Some False"
| "greaterThanZero coerce (JBool b) = Some b"
| "greaterThanZero coerce (JNum q) = Some (0 < q)"
| "greaterThanZero coerce x = coerce x"

text \<open>
  The statements that follow \<^verbatim>\<open>addMessage(message)\<close> for one message: the calls they
  make, and whether they throw. Reading \<^verbatim>\<open>message.type\<close> throws for \<^verbatim>\<open>null\<close>.
\<close>

definition afterAddMessage :: "(jsval \<Rightarrow> bool option) \<Rightarrow> jsval \<Rightarrow> event list \<times> bool" where
  "afterAddMessage coerce m =
     (if m = JNull \<or> m = JUndefined then ([], True)
      else if member m ''type'' = JStr ''writer'' then
        (if truthy (member m ''data'') \<and> truthy (member (member m ''data'') ''start'')
         then ([CreateArticle ''''], False)
         else ([], False))
      else if member m ''type'' = JStr ''partial'' then
        (let d = member m ''data'';
             t = (if d = JNull \<or> d = JUndefined then JUndefined else member d ''text'')
         in if \<not> truthy t then ([], False)
            else (case greaterThanZero coerce (member t ''length'') of
                    None \<Rightarrow> ([], True)
                  | Some True \<Rightarrow> ([AddToArticle t], False)
                  | Some False \<Rightarrow> ([], False)))
      else ([], False))"

text \<open>The inner loop over the parts of one chunk and the outer loop over the chunks. The
  second component tells whether an exception was thrown; the calls made before it
  are kept.\<close>

fun processParts ::
    "(string \<Rightarrow> jsval option) \<Rightarrow> (jsval \<Rightarrow> bool option) \<Rightarrow> string list \<Rightarrow> event list \<times> bool" where
  "processParts parse coerce [] = ([], False)"
| "processParts parse coerce (part # parts) =
     (if trim part = '''' then processParts parse coerce parts
      else (case parse (trim part) of
              None \<Rightarrow> ([], True)
            | Some m \<Rightarrow>
                (case afterAddMessage coerce m of
                   (evs1, True) \<Rightarrow> (AddMessage m # evs1, True)
                 | (evs1, False) \<Rightarrow>
                     (case processParts parse coerce parts of
                        (evs, threw) \<Rightarrow> (AddMessage m # evs1 @ evs, threw)))))"

fun processChunks ::
    "(string \<Rightarrow> jsval option) \<Rightarrow> (jsval \<Rightarrow> bool option) \<Rightarrow> string list \<Rightarrow> event list \<times> bool" where
  "processChunks parse coerce [] = ([], False)"
| "processChunks parse coerce (chunk # chunks) =
     (case processParts parse coerce (splitLines chunk) of
        (evs, True) \<Rightarrow> (evs, True)
      | (evs, False) \<Rightarrow>
          (case processChunks parse coerce chunks of
             (evs', threw) \<Rightarrow> (evs @ evs', threw)))"

definition apiCallFailed :: jsval where
  "apiCallFailed =
     JObj [(''type'', JStr ''error''),
           (''message'', JStr ''API call failed. Please check your connection and try again.'')]"

definition authenticationFailed :: jsval where
  "authenticationFailed =
     JObj [(''type'', JStr ''error''),
           (''message'', JStr ''Authentication failed. Please refresh the page and try again.'')]"

text \<open>Reading the body, inside the outer \<^verbatim>\<open>try\<close>: an exception ends in the \<^verbatim>\<open>catch\<close>, which
  reports it with \<^verbatim>\<open>addMessage\<close>.\<close>

definition readBody ::
    "(string \<Rightarrow> jsval option) \<Rightarrow> (jsval \<Rightarrow> bool option) \<Rightarrow> response \<Rightarrow> event list" where
  "readBody parse coerce r =
     (case body r of
        None \<Rightarrow> []
      | Some chunks \<Rightarrow>
          (case processChunks parse coerce chunks of
             (evs, threw) \<Rightarrow> if threw then evs @ [AddMessage apiCallFailed] else evs))"

text \<open>
  \<^verbatim>\<open>callApi\<close>, with the Authorization token of \<^verbatim>\<open>configuration.headers\<close>. It calls itself
  after a successful new login, so it consumes one \<open>attempt\<close> per run; when the list of
  attempts is used up the result is \<open>None\<close> (the run is not determined by the
  environment given).
\<close>

fun callApi ::
    "(string \<Rightarrow> jsval option) \<Rightarrow> (jsval \<Rightarrow> bool option) \<Rightarrow> string option \<Rightarrow> attempt list
      \<Rightarrow> event list option" where
  "callApi parse coerce token [] = None"
| "callApi parse coerce token (a # rest) =
     (case fetchResult a of
        Inl e \<Rightarrow> Some [Fetch token, AddMessage apiCallFailed]
      | Inr r \<Rightarrow>
          if status r = 401 then
            (case msalInstance a of
               None \<Rightarrow> Some (Fetch token # readBody parse coerce r)
             | Some m \<Rightarrow>
                 (case loginPopup m of
                    Inl error \<Rightarrow> Some [Fetch token, LoginPopup, AddMessage authenticationFailed]
                  | Inr u \<Rightarrow>
                      (case getAuthToken (Some m) of
                         Inl error \<Rightarrow> Some [Fetch token, LoginPopup, AddMessage authenticationFailed]
                       | Inr newToken \<Rightarrow>
                           if truthyStr newToken
                           then map_option (\<lambda>evs. Fetch token # LoginPopup # evs)
                                  (callApi parse coerce newToken rest)
                           else Some (Fetch token # LoginPopup # readBody parse coerce r))))
          else Some (Fetch token # readBody parse coerce r))"

definition startWritingTask ::
    "(string \<Rightarrow> jsval option) \<Rightarrow> (jsval \<Rightarrow> bool option) \<Rightarrow> msal option \<Rightarrow> attempt list
      \<Rightarrow> event list option" where
  "startWritingTask parse coerce msalInstance0 attempts =
     (case getAuthToken msalInstance0 of
        Inl e \<Rightarrow> Some []
      | Inr token \<Rightarrow> callApi parse coerce (if truthyStr token then token else None) attempts)"

text \<open>The \<^verbatim>\<open>addMessage\<close> calls of a trace, in order.\<close>

fun addMessageCalls :: "event list \<Rightarrow> jsval list" where
  "addMessageCalls [] = []"
| "addMessageCalls (AddMessage m # evs) = m # addMessageCalls evs"
| "addMessageCalls (e # evs) = addMessageCalls evs"

text \<open>The non-blank parts of one chunk, as the inner loop sees them; and the non-blank
  lines of the whole stream.\<close>

definition chunkParts :: "string \<Rightarrow> string list" where
  "chunkParts chunk = filter (\<lambda>p. p \<noteq> '''') (map trim (splitLines chunk))"

definition streamLines :: "string list \<Rightarrow> string list" where
  "streamLines chunks = filter (\<lambda>p. p \<noteq> '''') (map trim (splitLines (concat chunks)))"

text \<open>A part is delivered when it is the JSON text of a message that the statements after
  \<^verbatim>\<open>addMessage\<close> process without an exception.\<close>

definition delivered :: "(string \<Rightarrow> jsval option) \<Rightarrow> (jsval \<Rightarrow> bool option) \<Rightarrow> string \<Rightarrow> bool" where
  "delivered parse coerce p \<longleftrightarrow>
     (case parse p of None \<Rightarrow> False | Some m \<Rightarrow> \<not> snd (afterAddMessage coerce m))"

lemma afterAddMessage_no_exception:
  "m \<noteq> JNull \<Longrightarrow> m \<noteq> JUndefined \<Longrightarrow> member m ''type'' \<noteq> JStr ''partial'' \<Longrightarrow>
     \<not> snd (afterAddMessage coerce m)"
  by (simp add: afterAddMessage_def)

lemma splitLines_nonempty: "splitLines s \<noteq> []"
  by (induction s) (auto split: list.splits)

lemma splitLines_append_newline:
  "splitLines (a @ CHR 0x0A # b) = splitLines a @ splitLines b"
  by (induction a) (auto simp: splitLines_nonempty split: list.splits)

lemma addMessageCalls_append:
  "addMessageCalls (xs @ ys) = addMessageCalls xs @ addMessageCalls ys"
  by (induction xs rule: addMessageCalls.induct) auto

lemma addMessageCalls_afterAddMessage: "addMessageCalls (fst (afterAddMessage coerce m)) = []"
  by (auto simp: afterAddMessage_def Let_def split: option.splits bool.splits)

lemma processParts_all_delivered:
  "\<forall>p \<in> set parts. trim p \<noteq> '''' \<longrightarrow> delivered parse coerce (trim p) \<Longrightarrow>
     snd (processParts parse coerce parts) = False \<and>
     addMessageCalls (fst (processParts parse coerce parts))
       = map (\<lambda>p. the (parse p)) (filter (\<lambda>p. p \<noteq> '''') (map trim parts))"
proof (induction parts)
  case Nil
  then show ?case by simp
next
  case (Cons part parts)
  show ?case
  proof (cases "trim part = ''''")
    case True
    with Cons show ?thesis by simp
  next
    case False
    with Cons.prems obtain m where m: "parse (trim part) = Some m"
      and quiet: "\<not> snd (afterAddMessage coerce m)"
      by (auto simp: delivered_def split: option.splits)
    obtain evs1 where a: "afterAddMessage coerce m = (evs1, False)"
      using quiet by (cases "afterAddMessage coerce m") auto
    have e1: "addMessageCalls evs1 = []"
      using addMessageCalls_afterAddMessage [of coerce m] a by simp
    from Cons.IH Cons.prems have ih: "snd (processParts parse coerce parts) = False"
      "addMessageCalls (fst (processParts parse coerce parts))
         = map (\<lambda>p. the (parse p)) (filter (\<lambda>p. p \<noteq> '''') (map trim parts))"
      by auto
    show ?thesis
      using False m a e1 ih
      by (auto simp: addMessageCalls_append split: prod.splits)
  qed
qed

lemma processChunks_all_delivered:
  "\<forall>c \<in> set chunks. \<forall>p \<in> set (chunkParts c). delivered parse coerce p \<Longrightarrow>
     snd (processChunks parse coerce chunks) = False \<and>
     addMessageCalls (fst (processChunks parse coerce chunks))
       = map (\<lambda>p. the (parse p)) (concat (map chunkParts chunks))"
proof (induction chunks)
  case Nil
  then show ?case by simp
next
  case (Cons c chunks)
  have "\<forall>p \<in> set (splitLines c). trim p \<noteq> '''' \<longrightarrow> delivered parse coerce (trim p)"
    using Cons.prems by (auto simp: chunkParts_def)
  from processParts_all_delivered [OF this] Cons show ?case
    by (auto simp: addMessageCalls_append chunkParts_def split: prod.splits bool.splits)
qed

lemma chunkParts_append_newline:
  "chunkParts (a @ CHR 0x0A # b) = chunkParts a @ chunkParts b"
  by (simp add: chunkParts_def splitLines_append_newline)

lemma trim_Nil: "trim [] = []"
  by (simp add: trim_def)

lemma chunkParts_boundary:
  assumes "c = [] \<or> last c = CHR 0x0A"
  shows "chunkParts (c @ rest) = chunkParts c @ chunkParts rest"
proof (cases "c = []")
  case True
  then show ?thesis by (simp add: chunkParts_def trim_Nil)
next
  case False
  with assms obtain a where c: "c = a @ [CHR 0x0A]"
    by (metis append_butlast_last_id)
  have "chunkParts (c @ rest) = chunkParts a @ chunkParts rest"
    using chunkParts_append_newline [of a rest] by (simp add: c)
  moreover have "chunkParts c = chunkParts a"
    using chunkParts_append_newline [of a "[]"] by (simp add: c chunkParts_def trim_Nil)
  ultimately show ?thesis by simp
qed

lemma streamLines_boundaries:
  "\<forall>c \<in> set (butlast chunks). c = [] \<or> last c = CHR 0x0A \<Longrightarrow>
     streamLines chunks = concat (map chunkParts chunks)"
proof (induction chunks)
  case Nil
  then show ?case by (simp add: streamLines_def trim_Nil)
next
  case (Cons c chunks)
  show ?case
  proof (cases "chunks = []")
    case True
    then show ?thesis by (simp add: streamLines_def chunkParts_def)
  next
    case False
    with Cons.prems have c: "c = [] \<or> last c = CHR 0x0A"
      and rest: "\<forall>c \<in> set (butlast chunks). c = [] \<or> last c = CHR 0x0A"
      by auto
    have "streamLines (c # chunks) = chunkParts (c @ concat chunks)"
      by (simp add: streamLines_def chunkParts_def)
    also have "\<dots> = chunkParts c @ chunkParts (concat chunks)"
      using c by (rule chunkParts_boundary)
    also have "chunkParts (concat chunks) = streamLines chunks"
      by (simp add: streamLines_def chunkParts_def)
    finally show ?thesis using Cons.IH [OF rest] by simp
  qed
qed

subsection \<open>An example stream\<close>

text \<open>
  Two lines of the stream, \<^verbatim>\<open>{"type":"message","message":"hi"}\<close> and the same with
  \<^verbatim>\<open>"bye"\<close>, and \<^verbatim>\<open>JSON.parse\<close> on the texts of the examples below: it returns the
  message of each complete line and \<^verbatim>\<open>null\<close> for the text \<^verbatim>\<open>null\<close>; the other texts it is
  applied to there are the two halves of the first line, which are not JSON texts.
\<close>

definition quoted :: "string \<Rightarrow> string" where
  "quoted s = CHR 0x22 # s @ [CHR 0x22]"

definition hiLine :: string where
  "hiLine = ''{'' @ quoted ''type'' @ '':'' @ quoted ''message'' @ '','' @
            quoted ''message'' @ '':'' @ quoted ''hi'' @ ''}''"

definition byeLine :: string where
  "byeLine = ''{'' @ quoted ''type'' @ '':'' @ quoted ''message'' @ '','' @
             quoted ''message'' @ '':'' @ quoted ''bye'' @ ''}''"

definition hiMessage :: jsval where
  "hiMessage = JObj [(''type'', JStr ''message''), (''message'', JStr ''hi'')]"

definition byeMessage :: jsval where
  "byeMessage = JObj [(''type'', JStr ''message''), (''message'', JStr ''bye'')]"

definition parseExample :: "string \<Rightarrow> jsval option" where
  "parseExample s =
     (if s = hiLine then Some hiMessage
      else if s = byeLine then Some byeMessage
      else if s = ''null'' then Some JNull
      else None)"

text \<open>A line that is the JSON text \<^verbatim>\<open>null\<close> is passed to \<^verbatim>\<open>addMessage\<close>; reading its \<^verbatim>\<open>type\<close>
  then throws, the error is reported, and the lines after it are never read.\<close>

lemma readBody_null_line:
  "readBody parseExample coerce
     \<lparr>status = 200, statusText = ''OK'',
      body = Some [''null'' @ [CHR 0x0A] @ hiLine @ [CHR 0x0A]],
      json = Inl (Error ''not read'')\<rparr>
     = [AddMessage JNull, AddMessage apiCallFailed]"
  by (simp add: readBody_def parseExample_def hiLine_def byeLine_def quoted_def trim_def
        isWhitespace_def afterAddMessage_def)

text \<open>
  Claim C2, as amended. When \<^verbatim>\<open>callApi\<close> reads the body of a response (it does so for
  every response whose status is not 401), each chunk is split at newlines on its own.
  When every non-blank part of every chunk is the JSON text of a message that is
  processed without an exception (\<^verbatim>\<open>null\<close> is not one), each part is parsed and passed to
  \<^verbatim>\<open>addMessage\<close> exactly once, in arrival order (chunk by chunk, part by part). When
  moreover no line spans a chunk boundary (every chunk but the last is empty or ends with
  a newline), these calls are exactly the non-blank lines of the stream, in stream order.
\<close>

theorem callApi_lines_in_order:
  assumes "body r = Some chunks"
    and "\<forall>c \<in> set chunks. \<forall>p \<in> set (chunkParts c). delivered parse coerce p"
  shows "(fetchResult a = Inr r \<and> status r \<noteq> 401 \<longrightarrow>
            callApi parse coerce token (a # rest) = Some (Fetch token # readBody parse coerce r)) \<and>
         addMessageCalls (Fetch token # readBody parse coerce r)
           = map (\<lambda>p. the (parse p)) (concat (map chunkParts chunks)) \<and>
         ((\<forall>c \<in> set (butlast chunks). c = [] \<or> last c = CHR 0x0A) \<longrightarrow>
            addMessageCalls (Fetch token # readBody parse coerce r)
              = map (\<lambda>p. the (parse p)) (streamLines chunks))"
proof -
  have calls: "addMessageCalls (Fetch token # readBody parse coerce r)
      = map (\<lambda>p. the (parse p)) (concat (map chunkParts chunks))"
    using processChunks_all_delivered [OF assms(2)] assms(1)
    by (auto simp: readBody_def split: prod.splits)
  show ?thesis
    using calls by (simp add: streamLines_boundaries)
qed

theorem callApi_lines_in_order_witness:
  "callApi parseExample (\<lambda>x. None) (Some ''t'')
     [\<lparr>fetchResult = Inr \<lparr>status = 200, statusText = ''OK'',
          body = Some [hiLine @ [CHR 0x0A] @ ''  '' @ [CHR 0x0D, CHR 0x0A], byeLine @ [CHR 0x0A]],
          json = Inl (Error ''not read'')\<rparr>,
       msalInstance = None\<rparr>]
     = Some [Fetch (Some ''t''), AddMessage hiMessage, AddMessage byeMessage] \<and>
   delivered parseExample (\<lambda>x. None) hiLine \<and>
   delivered parseExample (\<lambda>x. None) byeLine \<and>
   streamLines [hiLine @ [CHR 0x0A] @ ''  '' @ [CHR 0x0D, CHR 0x0A], byeLine @ [CHR 0x0A]]
     = [hiLine, byeLine]"
proof -
  let ?chunks = "[hiLine @ [CHR 0x0A] @ ''  '' @ [CHR 0x0D, CHR 0x0A], byeLine @ [CHR 0x0A]]"
  let ?r = "\<lparr>status = 200, statusText = ''OK'', body = Some ?chunks,
             json = Inl (Error ''not read'')\<rparr>"
  let ?a = "\<lparr>fetchResult = Inr ?r, msalInstance = None\<rparr>"
  have parts: "chunkParts (hiLine @ [CHR 0x0A] @ ''  '' @ [CHR 0x0D, CHR 0x0A]) = [hiLine]"
    "chunkParts (byeLine @ [CHR 0x0A]) = [byeLine]"
    by (simp_all add: chunkParts_def hiLine_def byeLine_def quoted_def trim_def isWhitespace_def)
  have lines: "streamLines ?chunks = [hiLine, byeLine]"
    by (simp add: streamLines_def hiLine_def byeLine_def quoted_def trim_def isWhitespace_def)
  have p: "parseExample hiLine = Some hiMessage" "parseExample byeLine = Some byeMessage"
    by (simp_all add: parseExample_def hiLine_def byeLine_def quoted_def)
  have d: "delivered parseExample (\<lambda>x. None) hiLine" "delivered parseExample (\<lambda>x. None) byeLine"
    by (simp_all add: delivered_def p afterAddMessage_def hiMessage_def byeMessage_def getProp_def)
  have h: "\<forall>c \<in> set ?chunks. \<forall>p \<in> set (chunkParts c). delivered parseExample (\<lambda>x. None) p"
    using parts d by simp
  have rb: "readBody parseExample (\<lambda>x. None) ?r = [AddMessage hiMessage, AddMessage byeMessage]"
    by (simp add: readBody_def hiLine_def byeLine_def quoted_def trim_def isWhitespace_def
          parseExample_def afterAddMessage_def hiMessage_def byeMessage_def getProp_def)
  from callApi_lines_in_order [of ?r ?chunks parseExample "\<lambda>x. None" ?a "Some ''t''" "[]", OF _ h]
  show ?thesis
    using lines rb d by simp
qed

text \<open>
  Claim C2 as stated fails for a line that spans a chunk boundary: the stream below holds
  the single line \<^verbatim>\<open>{"type":"message","message":"hi"}\<close>, cut after the first comma. The
  first half is parsed on its own, \<^verbatim>\<open>JSON.parse\<close> throws, and the only call of
  \<^verbatim>\<open>addMessage\<close> is the error report of the \<^verbatim>\<open>catch\<close>.
\<close>

theorem callApi_line_across_chunks_counterexample:
  "streamLines [''{'' @ quoted ''type'' @ '':'' @ quoted ''message'' @ '','',
                quoted ''message'' @ '':'' @ quoted ''hi'' @ ''}'' @ [CHR 0x0A]]
     = [hiLine] \<and>
   parseExample hiLine = Some hiMessage \<and>
   callApi parseExample (\<lambda>x. None) (Some ''t'')
     [\<lparr>fetchResult = Inr \<lparr>status = 200, statusText = ''OK'',
          body = Some [''{'' @ quoted ''type'' @ '':'' @ quoted ''message'' @ '','',
                       quoted ''message'' @ '':'' @ quoted ''hi'' @ ''}'' @ [CHR 0x0A]],
          json = Inl (Error ''not read'')\<rparr>,
       msalInstance = None\<rparr>]
     = Some [Fetch (Some ''t''), AddMessage apiCallFailed]"
  by (simp add: streamLines_def hiLine_def quoted_def trim_def isWhitespace_def
        parseExample_def byeLine_def readBody_def)

section \<open>The patient search (\<^verbatim>\<open>fetchPatient\<close>, \<^verbatim>\<open>handleSearch\<close>)\<close>

text \<open>A status code in decimal, as the template string prints it.\<close>

fun decimal :: "nat \<Rightarrow> string" where
  "decimal n =
     (if n < 10 then [''0123456789'' ! n]
      else decimal (n div 10) @ [''0123456789'' ! (n mod 10)])"

declare decimal.simps [simp del]

text \<open>\<^verbatim>\<open>fetchPatient\<close>: the requests it makes and what it returns, \<open>Inl\<close> for the error it
  throws.\<close>

definition fetchPatient ::
    "msal option \<Rightarrow> (jsError + response) \<Rightarrow> event list \<times> (jsError + jsval)" where
  "fetchPatient msalInstance0 fetchResult0 =
     (case getAuthToken msalInstance0 of
        Inl e \<Rightarrow> ([], Inl e)
      | Inr token \<Rightarrow>
          if \<not> truthyStr token
          then ([], Inl (Error ''Authentication token not available. Please log in again.''))
          else (case fetchResult0 of
                  Inl e \<Rightarrow> ([Fetch token], Inl e)
                | Inr r \<Rightarrow>
                    if status r = 401
                    then ([Fetch token], Inl (Error ''Authentication failed. Please log in again.''))
                    else if \<not> ok r
                    then ([Fetch token],
                          Inl (Error (''Failed to fetch patient: '' @ decimal (status r) @ '' '' @
                                      statusText r)))
                    else ([Fetch token], json r)))"

text \<open>The state of the \<^verbatim>\<open>Patient\<close> component.\<close>

record patientView =
  patientData :: "jsval option"
  searchId :: string
  loading :: bool
  error :: string
  showSearch :: bool

text \<open>The message the \<^verbatim>\<open>catch\<close> of \<^verbatim>\<open>handleSearch\<close> shows for an error message.\<close>

definition catchMessage :: "string \<Rightarrow> string" where
  "catchMessage msg =
     (if sublist ''Authentication'' msg
      then ''Authentication failed. Please refresh the page and log in again.''
      else if sublist ''401'' msg
      then ''Unauthorized access. Please check your permissions.''
      else ''Patient not found or error fetching patient data.'')"

text \<open>The \<^verbatim>\<open>TypeError\<close> of reading a property of \<^verbatim>\<open>null\<close>; the wording of its message is
  the engine's.\<close>

definition nullPropertyError :: jsError where
  "nullPropertyError = Error ''Cannot read properties of null''"

text \<open>\<^verbatim>\<open>response.patient || response\<close> on the parsed body.\<close>

fun patientOf :: "jsval \<Rightarrow> jsError + jsval" where
  "patientOf JNull = Inl nullPropertyError"
| "patientOf JUndefined = Inl nullPropertyError"
| "patientOf (JObj ps) = Inr (if truthy (getProp ps ''patient'') then getProp ps ''patient'' else JObj ps)"
| "patientOf v = Inr v"

text \<open>\<^verbatim>\<open>handleSearch\<close>: the requests made and the state of the component afterwards.\<close>

definition handleSearch ::
    "patientView \<Rightarrow> msal option \<Rightarrow> (jsError + response) \<Rightarrow> event list \<times> patientView" where
  "handleSearch v msalInstance0 fetchResult0 =
     (let v1 = v\<lparr>error := '''', patientData := None\<rparr>
      in if trim (searchId v) = '''' then ([], v1\<lparr>error := ''Please enter an MRN.''\<rparr>)
         else (case fetchPatient msalInstance0 fetchResult0 of
                 (evs, res) \<Rightarrow>
                   (case (case res of Inl err \<Rightarrow> Inl err | Inr r \<Rightarrow> patientOf r) of
                      Inr patient \<Rightarrow>
                        (evs, v1\<lparr>patientData := Some patient, showSearch := False, loading := False\<rparr>)
                    | Inl err \<Rightarrow>
                        (evs, v1\<lparr>patientData := None, error := catchMessage (errorMessage err),
                                 loading := False\<rparr>))))"

fun isFetch :: "event \<Rightarrow> bool" where
  "isFetch (Fetch t) = True"
| "isFetch e = False"

lemma fetchPatient_events:
  "LoginPopup \<notin> set (fst (fetchPatient m f)) \<and> length (filter isFetch (fst (fetchPatient m f))) \<le> 1"
  by (auto simp: fetchPatient_def split: sum.splits)

lemma catchMessage_nonempty: "catchMessage msg \<noteq> ''''"
  by (simp add: catchMessage_def)

lemma handleSearch_events:
  "LoginPopup \<notin> set (fst (handleSearch v m f)) \<and>
   length (filter isFetch (fst (handleSearch v m f))) \<le> 1"
  using fetchPatient_events [of m f]
  by (auto simp: handleSearch_def Let_def split: prod.splits sum.splits)

lemma handleSearch_failure:
  "trim (searchId v) \<noteq> '''' \<Longrightarrow> snd (fetchPatient m f) = Inl err \<Longrightarrow>
     snd (handleSearch v m f) =
       v\<lparr>error := catchMessage (errorMessage err), patientData := None, loading := False\<rparr>"
  by (auto simp: handleSearch_def Let_def split: prod.splits sum.splits)

text \<open>A request has failed when \<^verbatim>\<open>fetch\<close> rejects or the status of the response is not
  in the range 200 to 299.\<close>

definition requestFailed :: "jsError + response \<Rightarrow> bool" where
  "requestFailed f \<longleftrightarrow> (case f of Inl e \<Rightarrow> True | Inr r \<Rightarrow> \<not> ok r)"

lemma fetchPatient_requestFailed:
  "requestFailed f \<Longrightarrow> \<exists>err. snd (fetchPatient m f) = Inl err"
  by (auto simp: requestFailed_def fetchPatient_def ok_def split: sum.splits)

text \<open>
  Claim C3, as amended. The patient search never re-authenticates and never re-issues a
  request: \<open>handleSearch\<close> makes at most one request, and for every failed request it
  shows an error message, clears the patient and stops loading. The writer consumer
  reports a rejected \<^verbatim>\<open>fetch\<close> with one error message and does not retry; but on an HTTP
  401 response with an MSAL instance present it re-authenticates with the login popup,
  reports an error message when the login fails, and, when a new token is obtained,
  re-issues the request with it.
\<close>

theorem failure_handling:
  "(\<forall>e. fetchResult a = Inl e \<longrightarrow>
      callApi parse coerce token (a # rest) = Some [Fetch token, AddMessage apiCallFailed]) \<and>
   (\<forall>r m e. fetchResult a = Inr r \<and> status r = 401 \<and> msalInstance a = Some m \<and>
        loginPopup m = Inl e \<longrightarrow>
      callApi parse coerce token (a # rest)
        = Some [Fetch token, LoginPopup, AddMessage authenticationFailed]) \<and>
   (\<forall>r m t. fetchResult a = Inr r \<and> status r = 401 \<and> msalInstance a = Some m \<and>
        loginPopup m = Inr () \<and> getAuthToken (Some m) = Inr (Some t) \<and> t \<noteq> '''' \<longrightarrow>
      callApi parse coerce token (a # rest)
        = map_option (\<lambda>evs. Fetch token # LoginPopup # evs) (callApi parse coerce (Some t) rest)) \<and>
   LoginPopup \<notin> set (fst (handleSearch v m0 f)) \<and>
   length (filter isFetch (fst (handleSearch v m0 f))) \<le> 1 \<and>
   (requestFailed f \<and> trim (searchId v) \<noteq> '''' \<longrightarrow>
      error (snd (handleSearch v m0 f)) \<noteq> '''' \<and>
      patientData (snd (handleSearch v m0 f)) = None \<and>
      \<not> loading (snd (handleSearch v m0 f)))"
proof (intro conjI allI impI)
  fix e assume "fetchResult a = Inl e"
  then show "callApi parse coerce token (a # rest) = Some [Fetch token, AddMessage apiCallFailed]"
    by simp
next
  fix r m e
  assume "fetchResult a = Inr r \<and> status r = 401 \<and> msalInstance a = Some m \<and> loginPopup m = Inl e"
  then show "callApi parse coerce token (a # rest)
      = Some [Fetch token, LoginPopup, AddMessage authenticationFailed]"
    by simp
next
  fix r m t
  assume "fetchResult a = Inr r \<and> status r = 401 \<and> msalInstance a = Some m \<and>
        loginPopup m = Inr () \<and> getAuthToken (Some m) = Inr (Some t) \<and> t \<noteq> ''''"
  then show "callApi parse coerce token (a # rest)
      = map_option (\<lambda>evs. Fetch token # LoginPopup # evs) (callApi parse coerce (Some t) rest)"
    by (simp add: truthyStr_def)
next
  show "LoginPopup \<notin> set (fst (handleSearch v m0 f))"
    and "length (filter isFetch (fst (handleSearch v m0 f))) \<le> 1"
    using handleSearch_events [of v m0 f] by simp_all
next
  assume h: "requestFailed f \<and> trim (searchId v) \<noteq> ''''"
  then obtain err where "snd (fetchPatient m0 f) = Inl err"
    using fetchPatient_requestFailed by blast
  with h have "snd (handleSearch v m0 f) =
      v\<lparr>error := catchMessage (errorMessage err), patientData := None, loading := False\<rparr>"
    by (simp add: handleSearch_failure)
  then show "error (snd (handleSearch v m0 f)) \<noteq> ''''"
    and "patientData (snd (handleSearch v m0 f)) = None"
    and "\<not> loading (snd (handleSearch v m0 f))"
    by (simp_all add: catchMessage_nonempty)
qed

theorem failure_handling_witness:
  "callApi (\<lambda>s. None) (\<lambda>x. None) (Some ''old'')
     [\<lparr>fetchResult = Inl (Error ''Failed to fetch''), msalInstance = None\<rparr>]
     = Some [Fetch (Some ''old''), AddMessage apiCallFailed] \<and>
   callApi (\<lambda>s. None) (\<lambda>x. None) (Some ''old'')
     [\<lparr>fetchResult = Inr \<lparr>status = 401, statusText = ''Unauthorized'', body = None,
          json = Inl (Error ''not read'')\<rparr>,
       msalInstance = Some \<lparr>getAllAccounts = [''alice''], acquireTokenSilent = Inr ''new'',
          acquireTokenPopup = Inl (Error ''not called''),
          loginPopup = Inl (Error ''user_cancelled'')\<rparr>\<rparr>]
     = Some [Fetch (Some ''old''), LoginPopup, AddMessage authenticationFailed] \<and>
   callApi (\<lambda>s. None) (\<lambda>x. None) (Some ''old'')
     [\<lparr>fetchResult = Inr \<lparr>status = 401, statusText = ''Unauthorized'', body = None,
          json = Inl (Error ''not read'')\<rparr>,
       msalInstance = Some \<lparr>getAllAccounts = [''alice''], acquireTokenSilent = Inr ''new'',
          acquireTokenPopup = Inl (Error ''not called''), loginPopup = Inr ()\<rparr>\<rparr>,
      \<lparr>fetchResult = Inl (Error ''Failed to fetch''), msalInstance = None\<rparr>]
     = Some [Fetch (Some ''old''), LoginPopup, Fetch (Some ''new''), AddMessage apiCallFailed] \<and>
   requestFailed (Inr \<lparr>status = 401, statusText = ''Unauthorized'', body = None,
          json = Inl (Error ''not read'')\<rparr>) \<and>
   handleSearch
     \<lparr>patientData = None, searchId = ''12345'', loading = False, error = '''', showSearch = True\<rparr>
     (Some \<lparr>getAllAccounts = [''alice''], acquireTokenSilent = Inr ''tok'',
          acquireTokenPopup = Inl (Error ''not called''), loginPopup = Inr ()\<rparr>)
     (Inr \<lparr>status = 401, statusText = ''Unauthorized'', body = None,
          json = Inl (Error ''not read'')\<rparr>)
     = ([Fetch (Some ''tok'')],
        \<lparr>patientData = None, searchId = ''12345'', loading = False,
         error = ''Authentication failed. Please refresh the page and log in again.'',
         showSearch = True\<rparr>)"
proof -
  let ?r = "\<lparr>status = 401, statusText = ''Unauthorized'', body = None,
          json = Inl (Error ''not read'')\<rparr>"
  let ?m = "\<lparr>getAllAccounts = [''alice''], acquireTokenSilent = Inr ''new'',
          acquireTokenPopup = Inl (Error ''not called''), loginPopup = Inr ()\<rparr>"
  let ?v = "\<lparr>patientData = None, searchId = ''12345'', loading = False, error = '''',
          showSearch = True\<rparr>"
  have cm: "catchMessage ''Authentication failed. Please log in again.''
      = ''Authentication failed. Please refresh the page and log in again.''"
    by code_simp
  have tr: "trim ''12345'' = ''12345''"
    by (simp add: trim_def isWhitespace_def)
  have hs: "handleSearch ?v
     (Some \<lparr>getAllAccounts = [''alice''], acquireTokenSilent = Inr ''tok'',
          acquireTokenPopup = Inl (Error ''not called''), loginPopup = Inr ()\<rparr>)
     (Inr ?r)
     = ([Fetch (Some ''tok'')],
        \<lparr>patientData = None, searchId = ''12345'', loading = False,
         error = ''Authentication failed. Please refresh the page and log in again.'',
         showSearch = True\<rparr>)"
    by (simp add: handleSearch_def fetchPatient_def getAuthToken_def getAuthTokenTry_def
          truthyStr_def tr cm Let_def)
  from failure_handling
      [of "\<lparr>fetchResult = Inl (Error ''Failed to fetch''), msalInstance = None\<rparr>"
          "\<lambda>s. None" "\<lambda>x. None" "Some ''old''" "[]" ?v
          "Some \<lparr>getAllAccounts = [''alice''], acquireTokenSilent = Inr ''tok'',
             acquireTokenPopup = Inl (Error ''not called''), loginPopup = Inr ()\<rparr>"
          "Inr ?r"]
    failure_handling
      [of "\<lparr>fetchResult = Inr ?r,
            msalInstance = Some \<lparr>getAllAccounts = [''alice''], acquireTokenSilent = Inr ''new'',
              acquireTokenPopup = Inl (Error ''not called''),
              loginPopup = Inl (Error ''user_cancelled'')\<rparr>\<rparr>"
          "\<lambda>s. None" "\<lambda>x. None" "Some ''old''" "[]" ?v None "Inr ?r"]
    failure_handling
      [of "\<lparr>fetchResult = Inr ?r, msalInstance = Some ?m\<rparr>"
          "\<lambda>s. None" "\<lambda>x. None" "Some ''old''"
          "[\<lparr>fetchResult = Inl (Error ''Failed to fetch''), msalInstance = None\<rparr>]"
          ?v None "Inr ?r"]
  show ?thesis
    using hs
    by (simp add: getAuthToken_def getAuthTokenTry_def requestFailed_def ok_def)
qed

text \<open>
  Claim C3 as stated fails on the writer consumer: after an HTTP 401 response it opens
  the login popup and sends the request again with the new token, and reports no error.
\<close>

theorem callApi_reauthenticates_counterexample:
  "callApi (\<lambda>s. None) (\<lambda>x. None) (Some ''old'')
     [\<lparr>fetchResult = Inr \<lparr>status = 401, statusText = ''Unauthorized'', body = None,
          json = Inl (Error ''not read'')\<rparr>,
       msalInstance = Some \<lparr>getAllAccounts = [''alice''], acquireTokenSilent = Inr ''new'',
          acquireTokenPopup = Inl (Error ''not called''), loginPopup = Inr ()\<rparr>\<rparr>,
      \<lparr>fetchResult = Inr \<lparr>status = 200, statusText = ''OK'', body = Some [],
          json = Inl (Error ''not read'')\<rparr>,
       msalInstance = None\<rparr>]
     = Some [Fetch (Some ''old''), LoginPopup, Fetch (Some ''new'')]"
  by (simp add: getAuthToken_def getAuthTokenTry_def truthyStr_def readBody_def)

end
